theory Spec2Isabelle
  imports Main "HOL-Library.Sublist"
begin

section \<open>JavaScript values and string primitives\<close>

text \<open>
  A stored paper is a JSON object, so a field can hold any JSON value. The model keeps the
  three shapes the memory code tells apart: a string, an array of strings, and an absent
  field (\<open>Undefined\<close>). Numbers, booleans, \<open>null\<close>, nested arrays and objects are not
  modelled. A string is a list of code units from 0 to 255, the characters of Latin-1;
  characters above U+00FF are outside the type.
\<close>

datatype jsval = Str string | Arr "string list" | Undefined

datatype error = TypeError | NetworkError | HttpError nat | AnkiError string

text \<open>
  \<open>s.toLowerCase()\<close>: among the characters up to U+00FF the capital letters are
  \<open>A\<close> to \<open>Z\<close> (65 to 90) and the accented capitals 192 to 222 without the
  multiplication sign 215; each has its small letter 32 places further. Every other
  character of the range is left as it is.
\<close>

definition toLowerChar :: "char \<Rightarrow> char" where
  "toLowerChar c =
     (let n = (of_char c :: nat)
      in if (65 \<le> n \<and> n \<le> 90) \<or> (192 \<le> n \<and> n \<le> 222 \<and> n \<noteq> 215)
         then char_of (n + 32) else c)"

definition toLowerCase :: "string \<Rightarrow> string" where
  "toLowerCase s = map toLowerChar s"

text \<open>\<open>s.includes(w)\<close>, also \<open>s.indexOf(w) >= 0\<close>: \<open>w\<close> occurs in \<open>s\<close> as a contiguous run.\<close>

fun js_includes :: "string \<Rightarrow> string \<Rightarrow> bool" where
  "js_includes [] w = (w = [])"
| "js_includes (c # cs) w = (prefix w (c # cs) \<or> js_includes cs w)"

text \<open>\<open>s.split(sep)\<close> for a one-character separator: empty pieces are kept, and the
  empty string splits into one empty piece.\<close>

fun js_split :: "char \<Rightarrow> string \<Rightarrow> string list" where
  "js_split sep [] = [[]]"
| "js_split sep (c # cs) =
     (if c = sep then [] # js_split sep cs
      else (case js_split sep cs of [] \<Rightarrow> [[c]] | w # ws \<Rightarrow> (c # w) # ws))"

text \<open>\<open>xs.join(sep)\<close> on an array of strings.\<close>

fun js_join :: "string \<Rightarrow> string list \<Rightarrow> string" where
  "js_join sep [] = []"
| "js_join sep [x] = x"
| "js_join sep (x # y # ys) = x @ sep @ js_join sep (y # ys)"

text \<open>\<open>s.replace(pat, "")\<close> with a string pattern: only the first occurrence goes.\<close>

fun remove_first :: "string \<Rightarrow> string \<Rightarrow> string" where
  "remove_first pat [] = []"
| "remove_first pat (c # cs) =
     (if prefix pat (c # cs) then drop (length pat) (c # cs) else c # remove_first pat cs)"

text \<open>\<open>String(v)\<close>: an array prints its elements separated by commas.\<close>

fun toStr :: "jsval \<Rightarrow> string" where
  "toStr (Str s) = s"
| "toStr (Arr xs) = js_join '','' xs"
| "toStr Undefined = ''undefined''"

text \<open>Truthiness: the empty string and an absent value are falsy, every array is truthy.\<close>

fun truthy :: "jsval \<Rightarrow> bool" where
  "truthy (Str s) = (s \<noteq> [])"
| "truthy (Arr xs) = True"
| "truthy Undefined = False"

text \<open>
  Numbers. \<open>parseInt\<close> returns \<open>NaN\<close>, an integer that is a double, or an infinity.
  \<open>NaN\<close> is \<open>None\<close>; the infinities are written \<open>2^1024\<close> and \<open>- 2^1024\<close>, which
  lie beyond every double, so that \<open><\<close>, \<open>>\<close> and \<open>===\<close> on numbers are the order and
  the equality of the integers.
\<close>

type_synonym number = "int option"

text \<open>The white space \<open>parseInt\<close> skips, among the characters up to U+00FF: tab, line
  feed, vertical tab, form feed, carriage return, space and the no-break space.\<close>

definition isWhiteSpace :: "char \<Rightarrow> bool" where
  "isWhiteSpace c = ((of_char c :: nat) \<in> {9, 10, 11, 12, 13, 32, 160})"

definition isDigit :: "char \<Rightarrow> bool" where
  "isDigit c = (48 \<le> (of_char c :: nat) \<and> (of_char c :: nat) \<le> 57)"

definition digitsValue :: "string \<Rightarrow> int" where
  "digitsValue z = foldl (\<lambda>a c. 10 * a + ((of_char c :: int) - 48)) 0 z"

text \<open>
  The double nearest to a natural number: up to \<open>2^53\<close> the number itself, above it the
  number rounded to 53 binary digits, a tie going to the even neighbour, and infinity
  from \<open>2^1024\<close> on. \<open>shift53 v\<close> is the number of binary digits to drop.
\<close>

function shift53 :: "int \<Rightarrow> nat" where
  "shift53 v = (if v < 2 ^ 53 then 0 else Suc (shift53 (v div 2)))"
  by pat_completeness auto
termination
  by (relation "measure nat") auto

definition toDouble :: "int \<Rightarrow> int" where
  "toDouble v =
     (let e = shift53 v;
          q = v div 2 ^ e;
          r = v mod 2 ^ e;
          q' = (if 2 ^ e < 2 * r \<or> (2 * r = 2 ^ e \<and> odd q) then q + 1 else q);
          d = q' * 2 ^ e
      in if 2 ^ 1024 \<le> d then 2 ^ 1024 else d)"

text \<open>
  \<open>parseInt(s, 10)\<close> as the engines compute it: leading white space is skipped, one sign
  is read, then the longest run of decimal digits; no digit gives \<open>NaN\<close>, otherwise the
  result is the double nearest to the value of the digits, with the sign.
\<close>

definition parseInt :: "string \<Rightarrow> number" where
  "parseInt s =
     (let S = dropWhile isWhiteSpace s;
          neg = (case S of [] \<Rightarrow> False | c # _ \<Rightarrow> c = CHR ''-'');
          S' = (case S of [] \<Rightarrow> []
                | c # cs \<Rightarrow> if c = CHR ''+'' \<or> c = CHR ''-'' then cs else c # cs);
          Z = takeWhile isDigit S'
      in if Z = [] then None
         else Some ((if neg then - 1 else 1) * toDouble (digitsValue Z)))"

section \<open>Papers and the global state\<close>

text \<open>
  A paper, with the fields the modelled functions read or write. \<open>paper_id\<close> is the
  field \<open>id\<close>. \<open>favorite\<close> is only ever tested for truth and assigned a boolean, so it
  is a boolean here (an absent \<open>favorite\<close> is \<open>False\<close>); \<open>count\<close> is the visit counter.
\<close>

record paper =
  paper_id :: jsval
  title :: jsval
  author :: jsval
  authors :: jsval
  venue :: jsval
  year :: jsval
  tags :: jsval
  "note" :: jsval
  codeLink :: jsval
  favorite :: bool
  favoriteDate :: jsval
  count :: int
  addDate :: jsval
  lastOpenDate :: jsval
  source :: jsval

text \<open>\<open>paper[key]\<close> for a key given as a string.\<close>

definition field :: "paper \<Rightarrow> string \<Rightarrow> jsval" where
  "field p key =
     (if key = ''title'' then title p
      else if key = ''author'' then author p
      else if key = ''authors'' then authors p
      else if key = ''note'' then note p
      else if key = ''tags'' then tags p
      else if key = ''id'' then paper_id p
      else if key = ''venue'' then venue p
      else if key = ''year'' then year p
      else if key = ''codeLink'' then codeLink p
      else if key = ''favoriteDate'' then favoriteDate p
      else if key = ''addDate'' then addDate p
      else if key = ''lastOpenDate'' then lastOpenDate p
      else if key = ''source'' then source p
      else Undefined)"

datatype logEntry =
    LogError string
  | LogText string
  | LogPaper paper
  | LogYears "number list"
  | LogException error

text \<open>
  \<open>global.state\<close>. The two ordered lists are array objects that \<open>reverseMemory\<close> mutates
  in place, so the state holds references into a store of arrays: \<open>arrays\<close> maps an
  address to the array's content, \<open>sortedPapers\<close> and \<open>papersList\<close> are addresses.
  \<open>memoryTable\<close> and \<open>papersTableBody\<close> are the rows of the two table elements of the
  page; the second exists on the full-memory page only.
\<close>

record state =
  papers :: "string \<rightharpoonup> paper"
  arrays :: "nat \<Rightarrow> paper list"
  sortedPapers :: nat
  papersList :: nat
  showFavorites :: bool
  sortKey :: string
  currentMemoryPagination :: nat
  memoryItemsPerPage :: nat
  console :: "logEntry list"
  memoryTable :: "string list"
  papersTableBody :: "string list option"

definition sortedPapers_of :: "state \<Rightarrow> paper list" where
  "sortedPapers_of st = arrays st (sortedPapers st)"

definition papersList_of :: "state \<Rightarrow> paper list" where
  "papersList_of st = arrays st (papersList st)"

text \<open>\<open>global.state.papersList = papersList\<close> for an array built by the caller: the
  new array lives at an address that neither list uses.\<close>

definition assign_papersList :: "paper list \<Rightarrow> state \<Rightarrow> state" where
  "assign_papersList xs st =
     (let a = Suc (max (sortedPapers st) (papersList st))
      in st\<lparr>arrays := (arrays st)(a := xs), papersList := a\<rparr>)"

section \<open>The four filters\<close>

subsection \<open>searchMemory\<close>

definition contentKeys :: "string list" where
  "contentKeys = [''title'', ''author'', ''note'', ''tags'', ''id'', ''venue'']"

definition content :: "paper \<Rightarrow> string \<Rightarrow> string" where
  "content p key =
     (case field p key of
        Arr xs \<Rightarrow> toLowerCase (js_join '' '' xs)
      | Str s \<Rightarrow> toLowerCase s
      | Undefined \<Rightarrow> [])"

definition content_log :: "paper \<Rightarrow> string \<Rightarrow> logEntry list" where
  "content_log p key =
     (case field p key of
        Arr xs \<Rightarrow> []
      | Str s \<Rightarrow> []
      | Undefined \<Rightarrow>
          [LogError (''searchMemory: non-string & non-array content for key '' @ key),
           LogPaper p])"

definition contents :: "paper \<Rightarrow> string list" where
  "contents p = map (content p) contentKeys"

definition text_match :: "string list \<Rightarrow> paper \<Rightarrow> bool" where
  "text_match words p = list_all (\<lambda>w. list_ex (\<lambda>c. js_includes c w) (contents p)) words"

definition searchMemory :: "string \<Rightarrow> state \<Rightarrow> state" where
  "searchMemory letters st =
     (let words = js_split (CHR '' '') (toLowerCase letters);
          logs = concat (map (\<lambda>p. concat (map (content_log p) contentKeys))
                   (sortedPapers_of st));
          found = filter (\<lambda>p. text_match words p \<and> (\<not> showFavorites st \<or> favorite p))
                   (sortedPapers_of st)
      in assign_papersList found (st\<lparr>console := console st @ logs\<rparr>))"

subsection \<open>searchMemoryByYear\<close>

definition condition_of :: "string \<Rightarrow> string" where
  "condition_of letters =
     (if CHR ''<'' \<in> set letters then ''smaller''
      else if CHR ''>'' \<in> set letters then ''greater''
      else [])"

text \<open>
  The year filter calls the built-in \<open>parseInt\<close> on the tokens of the query and on the
  paper's year. The filter takes that function as the argument \<open>parse\<close>, so that what is
  proved of the filter holds for whatever \<open>parseInt\<close> returns; the definition \<open>parseInt\<close>
  above is what it returns on strings of characters up to U+00FF.
\<close>

definition searchYears :: "(string \<Rightarrow> number) \<Rightarrow> string \<Rightarrow> number list" where
  "searchYears parse letters =
     map parse
       (map (\<lambda>y. if length y = 4 then y else ''20'' @ y)
         (filter (\<lambda>y. length y > 0)
           (js_split (CHR '' '')
             (map (\<lambda>c. if c = CHR '','' then CHR '' '' else c)
               (toLowerCase
                 (filter (\<lambda>c. c \<noteq> CHR ''<'' \<and> c \<noteq> CHR ''>'')
                   (remove_first ''y:'' letters)))))))"

text \<open>The comparison chosen by the condition; \<open>y\<close> is a year of the query, \<open>py\<close> the
  paper's year. Every comparison with \<open>NaN\<close> is false.\<close>

definition compare :: "string \<Rightarrow> number \<Rightarrow> number \<Rightarrow> bool" where
  "compare condition y py =
     (case (y, py) of
        (Some a, Some b) \<Rightarrow>
          (if condition = ''smaller'' then a > b
           else if condition = ''greater'' then a < b
           else a = b)
      | _ \<Rightarrow> False)"

definition paperYear :: "(string \<Rightarrow> number) \<Rightarrow> paper \<Rightarrow> number" where
  "paperYear parse p = parse (toStr (year p))"

definition searchMemoryByYear :: "(string \<Rightarrow> number) \<Rightarrow> string \<Rightarrow> state \<Rightarrow> state" where
  "searchMemoryByYear parse letters st =
     (let condition = condition_of letters;
          years = searchYears parse letters;
          found = filter (\<lambda>p. list_ex (\<lambda>y. compare condition y (paperYear parse p)) years)
                   (sortedPapers_of st)
      in assign_papersList found (st\<lparr>console := console st @ [LogYears years]\<rparr>))"

subsection \<open>searchMemoryByTags\<close>

text \<open>\<open>paper.tags.map((t) => t.toLowerCase())\<close> throws a TypeError unless \<open>tags\<close> is an
  array.\<close>

definition paperTags :: "paper \<Rightarrow> error + string list" where
  "paperTags p =
     (case tags p of
        Arr ts \<Rightarrow> Inr (map toLowerCase ts)
      | Str s \<Rightarrow> Inl TypeError
      | Undefined \<Rightarrow> Inl TypeError)"

definition tags_match :: "string list \<Rightarrow> string list \<Rightarrow> bool" where
  "tags_match ts pts = list_all (\<lambda>t. list_ex (\<lambda>pt. js_includes pt t) pts) ts"

text \<open>The loop over the sorted papers, with the list built so far; an exception leaves
  the loop at once.\<close>

fun tags_loop :: "string list \<Rightarrow> bool \<Rightarrow> paper list \<Rightarrow> paper list \<Rightarrow> error + paper list" where
  "tags_loop ts fav acc [] = Inr acc"
| "tags_loop ts fav acc (p # ps) =
     (case paperTags p of
        Inl e \<Rightarrow> Inl e
      | Inr pts \<Rightarrow>
          tags_loop ts fav
            (if tags_match ts pts \<and> (\<not> fav \<or> favorite p) then acc @ [p] else acc) ps)"

definition searchMemoryByTags :: "string \<Rightarrow> state \<Rightarrow> error + state" where
  "searchMemoryByTags letters st =
     (let ts = js_split (CHR '' '') (toLowerCase (remove_first ''t:'' letters))
      in case tags_loop ts (showFavorites st) [] (sortedPapers_of st) of
           Inl e \<Rightarrow> Inl e
         | Inr found \<Rightarrow> Inr (assign_papersList found st))"

subsection \<open>searchMemoryByCode\<close>

text \<open>\<open>(paper.codeLink || "").toLowerCase()\<close>: an absent or empty link is the empty
  string; an array is truthy and has no \<open>toLowerCase\<close>.\<close>

definition paperCode :: "paper \<Rightarrow> error + string" where
  "paperCode p =
     (case codeLink p of
        Str s \<Rightarrow> Inr (toLowerCase s)
      | Undefined \<Rightarrow> Inr []
      | Arr xs \<Rightarrow> Inl TypeError)"

definition code_match :: "string list \<Rightarrow> string \<Rightarrow> bool" where
  "code_match words pc = list_all (\<lambda>w. js_includes pc w) words"

fun code_loop :: "string list \<Rightarrow> bool \<Rightarrow> paper list \<Rightarrow> paper list \<Rightarrow> error + paper list" where
  "code_loop words fav acc [] = Inr acc"
| "code_loop words fav acc (p # ps) =
     (case paperCode p of
        Inl e \<Rightarrow> Inl e
      | Inr pc \<Rightarrow>
          code_loop words fav
            (if code_match words pc \<and> (\<not> fav \<or> favorite p) then acc @ [p] else acc) ps)"

definition searchMemoryByCode :: "string \<Rightarrow> state \<Rightarrow> error + state" where
  "searchMemoryByCode letters st =
     (let words = js_split (CHR '' '') (toLowerCase (remove_first ''c:'' letters))
      in case code_loop words (showFavorites st) [] (sortedPapers_of st) of
           Inl e \<Rightarrow> Inl e
         | Inr found \<Rightarrow> Inr (assign_papersList found st))"

section \<open>Sort direction\<close>

text \<open>
  \<open>reverseMemory\<close> is the one function of the sources that changes the direction of the
  lists. \<open>Array.prototype.reverse\<close> works in place, on the sorted list first and on the
  filtered list second. The sort itself (\<open>sortMemory\<close>) is not among the sources and is
  not modelled.
\<close>

definition reverseMemory :: "state \<Rightarrow> state" where
  "reverseMemory st =
     (let st1 = st\<lparr>arrays := (arrays st)(sortedPapers st := rev (arrays st (sortedPapers st)))\<rparr>
      in st1\<lparr>arrays := (arrays st1)(papersList st1 := rev (arrays st1 (papersList st1)))\<rparr>)"

section \<open>Favorites\<close>

text \<open>
  \<open>saveFavoriteItem\<close>: the two assignments to the paper, with \<open>now\<close> for
  \<open>new Date().toJSON()\<close>. An id that is not in the store makes the first assignment
  throw (the names every object inherits, such as \<open>constructor\<close>, are not ids of the
  model). The callback
  that runs once the papers are stored updates the page and, through \<open>sortMemory\<close>, the
  two lists; it is not part of this function's model.
\<close>

definition saveFavoriteItem :: "string \<Rightarrow> bool \<Rightarrow> string \<Rightarrow> state \<Rightarrow> error + state" where
  "saveFavoriteItem pid fav now st =
     (case papers st pid of
        None \<Rightarrow> Inl TypeError
      | Some p \<Rightarrow>
          Inr (st\<lparr>papers := (papers st)(pid \<mapsto> p\<lparr>favorite := fav, favoriteDate := Str now\<rparr>)\<rparr>))"

text \<open>
  \<open>handleToggleFavoriteTable\<close>, the star of the table view: the paper's \<open>favorite\<close> is
  flipped, for an id that is not empty and is in the store. \<open>pid\<close> is the id the clicked
  element carries.
\<close>

definition handleToggleFavoriteTable :: "string \<Rightarrow> state \<Rightarrow> state" where
  "handleToggleFavoriteTable pid st =
     (if pid = [] then st
      else case papers st pid of
             None \<Rightarrow> st
           | Some p \<Rightarrow> st\<lparr>papers := (papers st)(pid \<mapsto> p\<lparr>favorite := \<not> favorite p\<rparr>)\<rparr>)"

section \<open>Pagination\<close>

text \<open>\<open>xs.slice(a, b)\<close> for \<open>0 \<le> a \<le> b\<close>.\<close>

definition slice :: "nat \<Rightarrow> nat \<Rightarrow> 'a list \<Rightarrow> 'a list" where
  "slice a b xs = take (b - a) (drop a xs)"

text \<open>
  The row templates (\<open>getMemoryItemHTML\<close>, \<open>getMemoryTableRowHTML\<close>) are parameters:
  a template returns the row's HTML or throws. A paper whose template throws is logged
  and skipped. The listeners added after the rows are not modelled, nor is the timing log.
\<close>

definition render_rows :: "(paper \<Rightarrow> error + string) \<Rightarrow> paper list \<Rightarrow> string list" where
  "render_rows tmpl ps = concat (map (\<lambda>p. case tmpl p of Inr h \<Rightarrow> [h] | Inl e \<Rightarrow> []) ps)"

definition render_logs ::
  "string \<Rightarrow> (paper \<Rightarrow> error + string) \<Rightarrow> paper list \<Rightarrow> logEntry list" where
  "render_logs msg tmpl ps =
     concat (map (\<lambda>p. case tmpl p of Inr h \<Rightarrow> []
                       | Inl e \<Rightarrow> [LogText msg, LogException e, LogPaper p]) ps)"

definition displayMemoryTable :: "(paper \<Rightarrow> error + string) \<Rightarrow> nat \<Rightarrow> state \<Rightarrow> state" where
  "displayMemoryTable getMemoryItemHTML pagination st =
     (let st1 = (if pagination = 0
                 then st\<lparr>memoryTable := [], currentMemoryPagination := 0\<rparr> else st);
          shown = slice (pagination * memoryItemsPerPage st1)
                    ((pagination + 1) * memoryItemsPerPage st1) (papersList_of st1);
          table = render_rows getMemoryItemHTML shown;
          logs = render_logs ''displayMemoryTable error:'' getMemoryItemHTML shown
      in st1\<lparr>memoryTable := (if pagination = 0 then table else memoryTable st1 @ table),
             console := console st1 @ logs\<rparr>)"

text \<open>The row \<open>showTableEmptyState\<close> puts into an empty table (its markup shortened).\<close>

definition tableEmptyState :: string where
  "tableEmptyState = ''<tr><td colspan=8 class=table-empty>No papers found</td></tr>''"

definition displayMemoryTableView ::
  "(paper \<Rightarrow> error + string) \<Rightarrow> (paper \<Rightarrow> error + string) \<Rightarrow> nat \<Rightarrow> state \<Rightarrow> state" where
  "displayMemoryTableView getMemoryTableRowHTML getMemoryItemHTML pagination st =
     (case papersTableBody st of
        None \<Rightarrow> displayMemoryTable getMemoryItemHTML pagination st
      | Some body \<Rightarrow>
          (let st1 = (if pagination = 0
                      then st\<lparr>papersTableBody := Some [], currentMemoryPagination := 0\<rparr>
                      else st);
               body1 = (if pagination = 0 then [] else body)
           in if length (papersList_of st1) = 0
              then (if pagination = 0 then st1\<lparr>papersTableBody := Some [tableEmptyState]\<rparr>
                    else st1)
              else
                (let shown = slice (pagination * memoryItemsPerPage st1)
                               ((pagination + 1) * memoryItemsPerPage st1) (papersList_of st1);
                     rows = render_rows getMemoryTableRowHTML shown;
                     logs = render_logs ''displayMemoryTableView error:''
                              getMemoryTableRowHTML shown
                 in st1\<lparr>papersTableBody :=
                            Some (if pagination = 0 then rows else body1 @ rows),
                        console := console st1 @ logs\<rparr>)))"

text \<open>
  The body of the scroll handler. \<open>near\<close> is the geometric test
  \<open>Math.abs(bottom - height) < height\<close> on the table's bounding box, which depends on the
  layout only. The popup's table element is taken to exist.
\<close>

definition displayOnScroll ::
  "(paper \<Rightarrow> error + string) \<Rightarrow> (paper \<Rightarrow> error + string) \<Rightarrow> bool \<Rightarrow> state \<Rightarrow> state" where
  "displayOnScroll getMemoryTableRowHTML getMemoryItemHTML near st =
     (let isFullMemoryPage = (papersTableBody st \<noteq> None);
          currentPapers = currentMemoryPagination st * memoryItemsPerPage st
      in if near \<and> currentPapers < length (papersList_of st)
         then
           (let st1 = st\<lparr>currentMemoryPagination := currentMemoryPagination st + 1\<rparr>
            in if isFullMemoryPage
               then displayMemoryTableView getMemoryTableRowHTML getMemoryItemHTML
                      (currentMemoryPagination st1) st1
               else displayMemoryTable getMemoryItemHTML (currentMemoryPagination st1) st1)
         else st)"

section \<open>The flashcard bridge\<close>

record noteFields =
  Front :: string
  Back :: string

record noteOptions =
  allowDuplicate :: bool
  duplicateScope :: string

record ankiNote =
  deckName :: string
  modelName :: string
  note_fields :: noteFields
  noteTags :: "string list"
  options :: noteOptions

datatype ankiParams = NoParams | DeckParams string | NoteParams ankiNote

record request =
  action :: string
  version :: nat
  params :: ankiParams

datatype ankiResult = Names "string list" | Number int | Null

text \<open>What the local server does with a request: the fetch fails (no answer within the
  timeout, or a body that is not JSON), or the status is not ok, or a JSON body with a
  result and an error field comes back. The bridge's own console output is not modelled.\<close>

datatype reply = FetchFailed | NotOk nat | Json ankiResult "string option"

text \<open>The notes among a list of requests, in the order sent.\<close>

definition notes_of :: "request list \<Rightarrow> ankiNote list" where
  "notes_of rs = concat (map (\<lambda>r. case params r of NoteParams n \<Rightarrow> [n]
                                   | NoParams \<Rightarrow> [] | DeckParams d \<Rightarrow> []) rs)"

text \<open>The error AnkiConnect answers when it refuses a note as a duplicate.\<close>

definition duplicate_error :: string where
  "duplicate_error = ''cannot create note because it is a duplicate''"

text \<open>Every function of the bridge threads the list of the requests sent so far.\<close>

definition ankiRequest ::
  "(request \<Rightarrow> reply) \<Rightarrow> string \<Rightarrow> ankiParams \<Rightarrow> request list
     \<Rightarrow> (error + ankiResult) \<times> request list" where
  "ankiRequest bridge act ps sent =
     (let req = \<lparr>action = act, version = 6, params = ps\<rparr>;
          sent' = sent @ [req]
      in case bridge req of
           FetchFailed \<Rightarrow> (Inl NetworkError, sent')
         | NotOk status \<Rightarrow> (Inl (HttpError status), sent')
         | Json result err \<Rightarrow>
             (case err of
                None \<Rightarrow> (Inr result, sent')
              | Some e \<Rightarrow> if e \<noteq> [] then (Inl (AnkiError e), sent') else (Inr result, sent')))"

definition getDeckNames ::
  "(request \<Rightarrow> reply) \<Rightarrow> request list \<Rightarrow> (error + ankiResult) \<times> request list" where
  "getDeckNames bridge sent = ankiRequest bridge ''deckNames'' NoParams sent"

definition createDeck ::
  "(request \<Rightarrow> reply) \<Rightarrow> string \<Rightarrow> request list \<Rightarrow> (error + ankiResult) \<times> request list" where
  "createDeck bridge name sent = ankiRequest bridge ''createDeck'' (DeckParams name) sent"

definition ensureArxivDeck ::
  "(request \<Rightarrow> reply) \<Rightarrow> request list \<Rightarrow> (error + unit) \<times> request list" where
  "ensureArxivDeck bridge sent =
     (case getDeckNames bridge sent of
        (Inl e, s1) \<Rightarrow> (Inl e, s1)
      | (Inr deckNames, s1) \<Rightarrow>
          (case deckNames of
             Names ns \<Rightarrow>
               if ''arxiv'' \<notin> set ns
               then (case createDeck bridge ''arxiv'' s1 of
                       (Inl e, s2) \<Rightarrow> (Inl e, s2)
                     | (Inr r, s2) \<Rightarrow> (Inr (), s2))
               else (Inr (), s1)
           | Number n \<Rightarrow> (Inl TypeError, s1)
           | Null \<Rightarrow> (Inl TypeError, s1)))"

definition metadata :: "paper \<Rightarrow> string" where
  "metadata p =
     ''<hr><small>''
     @ (if source p = Str ''arxiv'' \<and> truthy (paper_id p)
        then ''<strong>arXiv:</strong> '' @ toStr (paper_id p) @ ''<br>'' else [])
     @ (if truthy (title p)
        then ''<strong>Title:</strong> '' @ toStr (title p) @ ''<br>'' else [])
     @ (if truthy (authors p) \<or> truthy (author p)
        then ''<strong>Authors:</strong> ''
             @ toStr (if truthy (authors p) then authors p else author p) @ ''<br>''
        else [])
     @ (if truthy (year p)
        then ''<strong>Year:</strong> '' @ toStr (year p) @ ''<br>'' else [])
     @ ''</small>''"

text \<open>\<open>addAnkiCard\<close> with the optional paper (the version that adds the paper's
  metadata to the back of the card).\<close>

definition addAnkiCard ::
  "(request \<Rightarrow> reply) \<Rightarrow> string \<Rightarrow> string \<Rightarrow> string \<Rightarrow> string list \<Rightarrow> paper option
     \<Rightarrow> request list \<Rightarrow> (error + ankiResult) \<times> request list" where
  "addAnkiCard bridge deck front back tgs pap sent =
     (case (if deck = ''arxiv'' then ensureArxivDeck bridge sent else (Inr (), sent)) of
        (Inl e, s1) \<Rightarrow> (Inl e, s1)
      | (Inr u, s1) \<Rightarrow>
          (let flds = \<lparr>Front = front, Back = back\<rparr>;
               flds' = (case pap of None \<Rightarrow> flds
                        | Some p \<Rightarrow> flds\<lparr>Back := Back flds @ metadata p\<rparr>);
               nt = \<lparr>deckName = deck, modelName = ''Basic'', note_fields = flds', noteTags = tgs,
                     options = \<lparr>allowDuplicate = True, duplicateScope = ''deck''\<rparr>\<rparr>
           in ankiRequest bridge ''addNote'' (NoteParams nt) s1))"

text \<open>\<open>addAnkiCard\<close> of the second copy of the bridge, which takes no paper.\<close>

definition addAnkiCard_plain ::
  "(request \<Rightarrow> reply) \<Rightarrow> string \<Rightarrow> string \<Rightarrow> string \<Rightarrow> string list
     \<Rightarrow> request list \<Rightarrow> (error + ankiResult) \<times> request list" where
  "addAnkiCard_plain bridge deck front back tgs sent =
     (case (if deck = ''arxiv'' then ensureArxivDeck bridge sent else (Inr (), sent)) of
        (Inl e, s1) \<Rightarrow> (Inl e, s1)
      | (Inr u, s1) \<Rightarrow>
          (let nt = \<lparr>deckName = deck, modelName = ''Basic'',
                     note_fields = \<lparr>Front = front, Back = back\<rparr>, noteTags = tgs,
                     options = \<lparr>allowDuplicate = True, duplicateScope = ''deck''\<rparr>\<rparr>
           in ankiRequest bridge ''addNote'' (NoteParams nt) s1))"

section \<open>Example data\<close>

definition blank :: paper where
  "blank = \<lparr>paper_id = Undefined, title = Undefined, author = Undefined,
     authors = Undefined, venue = Undefined, year = Undefined, tags = Arr [],
     note = Undefined, codeLink = Undefined, favorite = False, favoriteDate = Undefined,
     count = 0, addDate = Undefined, lastOpenDate = Undefined, source = Undefined\<rparr>"

text \<open>A state whose sorted list is \<open>ps\<close> (array 0) and whose filtered list is still
  empty (array 1), with the favorites toggle as given and a page size of 100.\<close>

definition example_state :: "paper list \<Rightarrow> bool \<Rightarrow> state" where
  "example_state ps fav =
     \<lparr>papers = Map.empty, arrays = (\<lambda>a. [])(0 := ps), sortedPapers = 0, papersList = 1,
      showFavorites = fav, sortKey = ''lastOpenDate'', currentMemoryPagination = 0,
      memoryItemsPerPage = 100, console = [], memoryTable = [], papersTableBody = None\<rparr>"

definition paper_of_year :: "string \<Rightarrow> paper" where
  "paper_of_year y = blank\<lparr>year := Str y\<rparr>"

definition paper_titled :: "string \<Rightarrow> paper" where
  "paper_titled t = blank\<lparr>title := Str t\<rparr>"

definition paper_tagged :: "string list \<Rightarrow> paper" where
  "paper_tagged ts = blank\<lparr>tags := Arr ts\<rparr>"

text \<open>A query with a tab between two words, as a paste into the search field gives.\<close>

definition tab_query :: string where
  "tab_query = ''gan'' @ [CHR 0x09] @ ''vae''"


text \<open>A store with one favorite paper.\<close>

definition example_store :: state where
  "example_store =
     (example_state [] False)
       \<lparr>papers := [''p1'' \<mapsto> blank\<lparr>favorite := True, favoriteDate := Str ''2024-01-01T00:00:00.000Z''\<rparr>]\<rparr>"

text \<open>A paper from arXiv, as the card form passes it to \<open>addAnkiCard\<close>.\<close>

definition example_arxiv_paper :: paper where
  "example_arxiv_paper =
     blank\<lparr>paper_id := Str ''1706.03762'', title := Str ''Attention Is All You Need'',
           author := Str ''Vaswani'', year := Str ''2017'', source := Str ''arxiv''\<rparr>"

text \<open>A bridge whose server knows the deck and accepts every request.\<close>

definition example_bridge :: "request \<Rightarrow> reply" where
  "example_bridge r =
     (if action r = ''deckNames'' then Json (Names [''Default'', ''arxiv'']) None
      else Json (Number 1) None)"

definition example_template :: "paper \<Rightarrow> error + string" where
  "example_template p = Inr (''<div>'' @ toStr (title p) @ ''</div>'')"

text \<open>A filtered list of 250 papers and pages of 100, before anything is displayed.\<close>

definition example_pages :: state where
  "example_pages = (example_state [] False)\<lparr>arrays := (\<lambda>a. [])(1 := replicate 250 blank)\<rparr>"

text \<open>The same after the first display and two scroll events: all 250 rows are on the
  page and the cursor is on the third page.\<close>

definition example_pages_shown :: state where
  "example_pages_shown =
     displayOnScroll example_template example_template True
       (displayOnScroll example_template example_template True
         (displayMemoryTable example_template 0 example_pages))"

text \<open>
  The spec's reading of an operand, for comparison with the code: the tokens are the
  non-empty pieces between runs of white space.
\<close>

definition spec_tokens :: "string \<Rightarrow> string list" where
  "spec_tokens s =
     filter (\<lambda>w. w \<noteq> [])
       (js_split (CHR '' '') (map (\<lambda>c. if isWhiteSpace c then CHR '' '' else c) s))"

section \<open>Basic facts\<close>

lemma js_includes_sublist: "js_includes s w \<longleftrightarrow> sublist w s"
  by (induction s) (auto simp: sublist_Cons_right)

lemma papersList_of_assign [simp]: "papersList_of (assign_papersList xs st) = xs"
  by (simp add: assign_papersList_def papersList_of_def Let_def)

lemma sortedPapers_of_assign [simp]:
  "sortedPapers_of (assign_papersList xs st) = sortedPapers_of st"
proof -
  have "sortedPapers st \<noteq> Suc (max (sortedPapers st) (papersList st))" by simp
  then show ?thesis by (simp add: assign_papersList_def sortedPapers_of_def Let_def)
qed

lemma sortedPapers_of_console [simp]:
  "sortedPapers_of (st\<lparr>console := c\<rparr>) = sortedPapers_of st"
  by (simp add: sortedPapers_of_def)

lemma sortedPapers_of_example [simp]: "sortedPapers_of (example_state ps fav) = ps"
  by (simp add: sortedPapers_of_def example_state_def)

lemma showFavorites_example [simp]: "showFavorites (example_state ps fav) = fav"
  by (simp add: example_state_def)

lemma paper_of_year_eq [simp]: "paper_of_year a = paper_of_year b \<longleftrightarrow> a = b"
  by (simp add: paper_of_year_def blank_def)

section \<open>Year queries\<close>

lemma papersList_of_searchMemoryByYear:
  "papersList_of (searchMemoryByYear parse letters st) =
     filter (\<lambda>p. list_ex (\<lambda>y. compare (condition_of letters) y (paperYear parse p))
                   (searchYears parse letters))
       (sortedPapers_of st)"
  by (simp add: searchMemoryByYear_def Let_def)

lemma compare_smaller:
  "compare ''smaller'' y py \<longleftrightarrow> (\<exists>a b. y = Some a \<and> py = Some b \<and> b < a)"
  by (auto simp: compare_def split: option.splits)

lemma compare_greater:
  "compare ''greater'' y py \<longleftrightarrow> (\<exists>a b. y = Some a \<and> py = Some b \<and> a < b)"
  by (auto simp: compare_def split: option.splits)

lemma searchYears_lt22: "searchYears parseInt ''y:<22'' = [Some 2022]"
  by code_simp

lemma condition_of_lt22: "condition_of ''y:<22'' = ''smaller''"
  by code_simp

lemma paperYear_2021: "paperYear parseInt (paper_of_year ''2021'') = Some 2021"
  by code_simp

lemma paperYear_2023: "paperYear parseInt (paper_of_year ''2023'') = Some 2023"
  by code_simp

text \<open>
  C1, as the code has it. With the favorites toggle off, for a paper of the sorted list:
  when the query contains \<open><\<close>, the paper is kept exactly when its year is less than
  one of the years of the query; when the query contains \<open>>\<close> and no \<open><\<close>, exactly
  when its year is greater than one of them. The years are the numbers \<open>parseInt\<close>
  returns, whatever function \<open>parse\<close> it is, so a year it reads as \<open>NaN\<close> never
  matches.
\<close>

theorem searchMemoryByYear_polarity:
  assumes "\<not> showFavorites st" and "p \<in> set (sortedPapers_of st)"
  shows "(CHR ''<'' \<in> set letters \<longrightarrow>
           (p \<in> set (papersList_of (searchMemoryByYear parse letters st)) \<longleftrightarrow>
            (\<exists>y py. Some y \<in> set (searchYears parse letters) \<and> paperYear parse p = Some py \<and> py < y)))
       \<and> (CHR ''<'' \<notin> set letters \<and> CHR ''>'' \<in> set letters \<longrightarrow>
           (p \<in> set (papersList_of (searchMemoryByYear parse letters st)) \<longleftrightarrow>
            (\<exists>y py. Some y \<in> set (searchYears parse letters) \<and> paperYear parse p = Some py \<and> y < py)))"
proof (intro conjI impI)
  assume "CHR ''<'' \<in> set letters"
  then have c: "condition_of letters = ''smaller''"
    by (simp add: condition_of_def)
  show "p \<in> set (papersList_of (searchMemoryByYear parse letters st)) \<longleftrightarrow>
          (\<exists>y py. Some y \<in> set (searchYears parse letters) \<and> paperYear parse p = Some py \<and> py < y)"
    using assms(2) unfolding papersList_of_searchMemoryByYear c
    by (auto simp: list_ex_iff compare_smaller)
next
  assume "CHR ''<'' \<notin> set letters \<and> CHR ''>'' \<in> set letters"
  then have c: "condition_of letters = ''greater''"
    by (simp add: condition_of_def)
  show "p \<in> set (papersList_of (searchMemoryByYear parse letters st)) \<longleftrightarrow>
          (\<exists>y py. Some y \<in> set (searchYears parse letters) \<and> paperYear parse p = Some py \<and> y < py)"
    using assms(2) unfolding papersList_of_searchMemoryByYear c
    by (auto simp: list_ex_iff compare_greater)
qed

theorem searchMemoryByYear_polarity_witness:
  "\<not> showFavorites (example_state [paper_of_year ''2021'', paper_of_year ''2023''] False)
   \<and> paper_of_year ''2021''
       \<in> set (sortedPapers_of
               (example_state [paper_of_year ''2021'', paper_of_year ''2023''] False))
   \<and> CHR ''<'' \<in> set ''y:<22''
   \<and> paper_of_year ''2021''
       \<in> set (papersList_of (searchMemoryByYear parseInt ''y:<22''
               (example_state [paper_of_year ''2021'', paper_of_year ''2023''] False)))"
  using searchMemoryByYear_polarity
    [where st = "example_state [paper_of_year ''2021'', paper_of_year ''2023''] False"
       and p = "paper_of_year ''2021''" and letters = "''y:<22''" and parse = parseInt]
  by (simp add: searchYears_lt22 paperYear_2021)

text \<open>
  The claim as the spec words it fails on the spec's own example: under \<open>y:<22\<close> (mode
  smaller, target 2022) the paper of 2023, whose year is greater than the target, is
  dropped, and the paper of 2021 is kept.
\<close>

theorem year_query_counterexample:
  "condition_of ''y:<22'' = ''smaller'' \<and> searchYears parseInt ''y:<22'' = [Some 2022]
   \<and> paperYear parseInt (paper_of_year ''2023'') = Some 2023
   \<and> paper_of_year ''2023''
       \<notin> set (papersList_of (searchMemoryByYear parseInt ''y:<22''
               (example_state [paper_of_year ''2021'', paper_of_year ''2023''] False)))
   \<and> paperYear parseInt (paper_of_year ''2021'') = Some 2021
   \<and> paper_of_year ''2021''
       \<in> set (papersList_of (searchMemoryByYear parseInt ''y:<22''
               (example_state [paper_of_year ''2021'', paper_of_year ''2023''] False)))"
  by (simp add: papersList_of_searchMemoryByYear searchYears_lt22 paperYear_2021
      paperYear_2023 condition_of_lt22 compare_def)

section \<open>Text, tag and code queries\<close>

lemma papersList_of_searchMemory:
  "papersList_of (searchMemory letters st) =
     filter (\<lambda>p. text_match (js_split (CHR '' '') (toLowerCase letters)) p
                 \<and> (\<not> showFavorites st \<or> favorite p))
       (sortedPapers_of st)"
  by (simp add: searchMemory_def Let_def)

lemma sortedPapers_of_searchMemory: "sortedPapers_of (searchMemory letters st) = sortedPapers_of st"
  by (simp add: searchMemory_def Let_def)

lemma sortedPapers_of_searchMemoryByYear: "sortedPapers_of (searchMemoryByYear parse letters st) = sortedPapers_of st"
  by (simp add: searchMemoryByYear_def Let_def)

lemma text_match_sublist:
  "text_match words p \<longleftrightarrow> (\<forall>w\<in>set words. \<exists>c\<in>set (contents p). sublist w c)"
  by (simp add: text_match_def list_all_iff list_ex_iff js_includes_sublist)

lemma tags_match_sublist:
  "tags_match ts (map toLowerCase xs) \<longleftrightarrow> (\<forall>w\<in>set ts. \<exists>t\<in>set xs. sublist w (toLowerCase t))"
  by (simp add: tags_match_def list_all_iff list_ex_iff js_includes_sublist)

lemma code_match_sublist:
  "code_match words pc \<longleftrightarrow> (\<forall>w\<in>set words. sublist w pc)"
  by (simp add: code_match_def list_all_iff js_includes_sublist)

text \<open>The two loops that can throw, in closed form: they return exactly when every
  paper has the field in a shape the loop can read.\<close>

lemma tags_loop_eq:
  "tags_loop ts fav acc ps =
     (if \<forall>p\<in>set ps. \<exists>xs. tags p = Arr xs
      then Inr (acc @ filter (\<lambda>p. (case tags p of Arr xs \<Rightarrow> tags_match ts (map toLowerCase xs)
                                      | Str s \<Rightarrow> False | Undefined \<Rightarrow> False)
                                  \<and> (\<not> fav \<or> favorite p)) ps)
      else Inl TypeError)"
  by (induction ps arbitrary: acc) (auto simp: paperTags_def split: jsval.splits)

lemma code_loop_eq:
  "code_loop ws fav acc ps =
     (if \<forall>p\<in>set ps. \<forall>xs. codeLink p \<noteq> Arr xs
      then Inr (acc @ filter (\<lambda>p. code_match ws (toLowerCase (case codeLink p of Str s \<Rightarrow> s
                                      | Arr xs \<Rightarrow> [] | Undefined \<Rightarrow> []))
                                  \<and> (\<not> fav \<or> favorite p)) ps)
      else Inl TypeError)"
  by (induction ps arbitrary: acc) (auto simp: paperCode_def toLowerCase_def split: jsval.splits)

lemma searchMemoryByTags_eq:
  "searchMemoryByTags letters st =
     (if \<forall>p\<in>set (sortedPapers_of st). \<exists>xs. tags p = Arr xs
      then Inr (assign_papersList
             (filter (\<lambda>p. (case tags p of
                              Arr xs \<Rightarrow> tags_match (js_split (CHR '' '') (toLowerCase (remove_first ''t:'' letters)))
                                         (map toLowerCase xs)
                            | Str s \<Rightarrow> False | Undefined \<Rightarrow> False)
                          \<and> (\<not> showFavorites st \<or> favorite p)) (sortedPapers_of st)) st)
      else Inl TypeError)"
  by (simp add: searchMemoryByTags_def tags_loop_eq Let_def)

lemma searchMemoryByCode_eq:
  "searchMemoryByCode letters st =
     (if \<forall>p\<in>set (sortedPapers_of st). \<forall>xs. codeLink p \<noteq> Arr xs
      then Inr (assign_papersList
             (filter (\<lambda>p. code_match (js_split (CHR '' '') (toLowerCase (remove_first ''c:'' letters)))
                            (toLowerCase (case codeLink p of Str s \<Rightarrow> s | Arr xs \<Rightarrow> [] | Undefined \<Rightarrow> []))
                          \<and> (\<not> showFavorites st \<or> favorite p)) (sortedPapers_of st)) st)
      else Inl TypeError)"
  by (simp add: searchMemoryByCode_def code_loop_eq Let_def)

lemma js_includes_Nil [simp]: "js_includes s []"
  by (simp add: js_includes_sublist)

lemma text_match_empty_token [simp]: "text_match [[]] p"
  by (simp add: text_match_def contents_def contentKeys_def)

lemma code_match_empty_token [simp]: "code_match [[]] pc"
  by (simp add: code_match_def)

lemma tags_match_empty_token [simp]: "tags_match [[]] pts \<longleftrightarrow> pts \<noteq> []"
  by (cases pts) (simp_all add: tags_match_def)

lemma toLowerCase_Nil [simp]: "toLowerCase [] = []"
  by (simp add: toLowerCase_def)

text \<open>
  C3, as the code has it. The tokens of a query are the pieces of the lowercased operand
  between single space characters, empty pieces included. A paper of the sorted list is in
  the filtered list exactly when every token is a substring of one of its six lowercased
  contents (text query), of one of its lowercased tags (tag query), of its lowercased code
  link (code query), and, with the favorites toggle on, the paper is a favorite. For the
  tag and the code query this is about a pass that completes.
\<close>

theorem filters_match_tokens:
  "(p \<in> set (papersList_of (searchMemory letters st)) \<longleftrightarrow>
      p \<in> set (sortedPapers_of st)
      \<and> (\<forall>w\<in>set (js_split (CHR '' '') (toLowerCase letters)). \<exists>c\<in>set (contents p). sublist w c)
      \<and> (showFavorites st \<longrightarrow> favorite p))
   \<and> (\<forall>st'. searchMemoryByTags letters st = Inr st' \<longrightarrow>
        (p \<in> set (papersList_of st') \<longleftrightarrow>
           p \<in> set (sortedPapers_of st)
           \<and> (\<exists>ts. tags p = Arr ts
                \<and> (\<forall>w\<in>set (js_split (CHR '' '') (toLowerCase (remove_first ''t:'' letters))).
                      \<exists>t\<in>set ts. sublist w (toLowerCase t)))
           \<and> (showFavorites st \<longrightarrow> favorite p)))
   \<and> (\<forall>st'. searchMemoryByCode letters st = Inr st' \<longrightarrow>
        (p \<in> set (papersList_of st') \<longleftrightarrow>
           p \<in> set (sortedPapers_of st)
           \<and> (\<forall>w\<in>set (js_split (CHR '' '') (toLowerCase (remove_first ''c:'' letters))).
                 sublist w (toLowerCase (case codeLink p of Str s \<Rightarrow> s | Arr xs \<Rightarrow> [] | Undefined \<Rightarrow> [])))
           \<and> (showFavorites st \<longrightarrow> favorite p)))"
proof (intro conjI impI allI)
  show "p \<in> set (papersList_of (searchMemory letters st)) \<longleftrightarrow>
      p \<in> set (sortedPapers_of st)
      \<and> (\<forall>w\<in>set (js_split (CHR '' '') (toLowerCase letters)). \<exists>c\<in>set (contents p). sublist w c)
      \<and> (showFavorites st \<longrightarrow> favorite p)"
    by (auto simp: papersList_of_searchMemory text_match_sublist)
next
  fix st'
  assume "searchMemoryByTags letters st = Inr st'"
  then have l: "papersList_of st' =
      filter (\<lambda>p. (case tags p of
                      Arr xs \<Rightarrow> tags_match (js_split (CHR '' '') (toLowerCase (remove_first ''t:'' letters)))
                                 (map toLowerCase xs)
                    | Str s \<Rightarrow> False | Undefined \<Rightarrow> False)
                  \<and> (\<not> showFavorites st \<or> favorite p)) (sortedPapers_of st)"
    by (auto simp: searchMemoryByTags_eq split: if_splits)
  show "p \<in> set (papersList_of st') \<longleftrightarrow>
           p \<in> set (sortedPapers_of st)
           \<and> (\<exists>ts. tags p = Arr ts
                \<and> (\<forall>w\<in>set (js_split (CHR '' '') (toLowerCase (remove_first ''t:'' letters))).
                      \<exists>t\<in>set ts. sublist w (toLowerCase t)))
           \<and> (showFavorites st \<longrightarrow> favorite p)"
    unfolding l by (cases "tags p") (auto simp: tags_match_sublist)
next
  fix st'
  assume "searchMemoryByCode letters st = Inr st'"
  then show "p \<in> set (papersList_of st') \<longleftrightarrow>
           p \<in> set (sortedPapers_of st)
           \<and> (\<forall>w\<in>set (js_split (CHR '' '') (toLowerCase (remove_first ''c:'' letters))).
                 sublist w (toLowerCase (case codeLink p of Str s \<Rightarrow> s | Arr xs \<Rightarrow> [] | Undefined \<Rightarrow> [])))
           \<and> (showFavorites st \<longrightarrow> favorite p)"
    by (auto simp: searchMemoryByCode_eq code_match_sublist split: if_splits)
qed

theorem filters_match_tokens_witness:
  "\<exists>st'. searchMemoryByTags ''t:ga'' (example_state [paper_tagged [''gan'', ''vae'']] False) = Inr st'
     \<and> paper_tagged [''gan'', ''vae''] \<in> set (papersList_of st')
     \<and> (\<exists>ts. tags (paper_tagged [''gan'', ''vae'']) = Arr ts
           \<and> (\<exists>t\<in>set ts. sublist ''ga'' (toLowerCase t)))"
proof -
  let ?p = "paper_tagged [''gan'', ''vae'']"
  let ?st = "example_state [?p] False"
  have "map_sum id papersList_of (searchMemoryByTags ''t:ga'' ?st) = Inr [?p]"
    by code_simp
  then obtain st' where s: "searchMemoryByTags ''t:ga'' ?st = Inr st'"
    and l: "papersList_of st' = [?p]"
    by (cases "searchMemoryByTags ''t:ga'' ?st") auto
  have toks: "js_split (CHR '' '') (toLowerCase (remove_first ''t:'' ''t:ga'')) = [''ga'']"
    by code_simp
  have "?p \<in> set (papersList_of st') \<longleftrightarrow>
          ?p \<in> set (sortedPapers_of ?st)
          \<and> (\<exists>ts. tags ?p = Arr ts
                \<and> (\<forall>w\<in>set (js_split (CHR '' '') (toLowerCase (remove_first ''t:'' ''t:ga''))).
                      \<exists>t\<in>set ts. sublist w (toLowerCase t)))
          \<and> (showFavorites ?st \<longrightarrow> favorite ?p)"
    using filters_match_tokens [of ?p "''t:ga''" ?st] s by blast
  then have "\<exists>ts. tags ?p = Arr ts \<and> (\<exists>t\<in>set ts. sublist ''ga'' (toLowerCase t))"
    unfolding toks l by simp
  with s l show ?thesis by auto
qed

text \<open>
  Three inputs where the claim's reading (white-space tokens, no favorites conjunct) and the
  code part: a query with a tab is one token for the code; a tag query with an empty
  operand has one empty token, which a paper without tags fails; with the toggle on a
  matching paper that is not a favorite is dropped.
\<close>

theorem filters_match_tokens_counterexample:
  "text_match (spec_tokens (toLowerCase tab_query)) (paper_titled ''gan vae'')
   \<and> papersList_of (searchMemory tab_query (example_state [paper_titled ''gan vae''] False)) = []
   \<and> tags_match (spec_tokens (toLowerCase (remove_first ''t:'' ''t:''))) []
   \<and> map_sum id papersList_of (searchMemoryByTags ''t:'' (example_state [blank] False)) = Inr []
   \<and> text_match (spec_tokens (toLowerCase ''gan'')) (paper_titled ''gan'')
   \<and> papersList_of (searchMemory ''gan'' (example_state [paper_titled ''gan''] True)) = []"
  by code_simp

section \<open>Empty operands\<close>

text \<open>
  C4, as the code has it. The empty text query and the code query \<open>c:\<close> give the sorted
  list, restricted to the favorites when the toggle is on. The tag query \<open>t:\<close> also drops
  the papers that have no tag. A year query with no year gives the empty list.
\<close>

theorem empty_operand:
  "papersList_of (searchMemory [] st)
     = (if showFavorites st then filter favorite (sortedPapers_of st) else sortedPapers_of st)
   \<and> ((\<forall>p\<in>set (sortedPapers_of st). \<forall>xs. codeLink p \<noteq> Arr xs) \<longrightarrow>
        (\<exists>st'. searchMemoryByCode ''c:'' st = Inr st'
           \<and> papersList_of st'
              = (if showFavorites st then filter favorite (sortedPapers_of st)
                 else sortedPapers_of st)))
   \<and> ((\<forall>p\<in>set (sortedPapers_of st). \<exists>ts. tags p = Arr ts) \<longrightarrow>
        (\<exists>st'. searchMemoryByTags ''t:'' st = Inr st'
           \<and> papersList_of st'
              = filter (\<lambda>p. tags p \<noteq> Arr [] \<and> (showFavorites st \<longrightarrow> favorite p))
                  (sortedPapers_of st)))
   \<and> (searchYears parse letters = [] \<longrightarrow> papersList_of (searchMemoryByYear parse letters st) = [])"
proof (intro conjI impI)
  show "papersList_of (searchMemory [] st)
     = (if showFavorites st then filter favorite (sortedPapers_of st) else sortedPapers_of st)"
    by (simp add: papersList_of_searchMemory)
next
  assume "\<forall>p\<in>set (sortedPapers_of st). \<forall>xs. codeLink p \<noteq> Arr xs"
  then show "\<exists>st'. searchMemoryByCode ''c:'' st = Inr st'
           \<and> papersList_of st'
              = (if showFavorites st then filter favorite (sortedPapers_of st)
                 else sortedPapers_of st)"
    by (simp add: searchMemoryByCode_eq)
next
  assume wf: "\<forall>p\<in>set (sortedPapers_of st). \<exists>ts. tags p = Arr ts"
  have flt: "filter (\<lambda>p. (case tags p of Arr xs \<Rightarrow> tags_match [[]] (map toLowerCase xs)
                       | Str s \<Rightarrow> False | Undefined \<Rightarrow> False)
                     \<and> (\<not> showFavorites st \<or> favorite p)) (sortedPapers_of st)
        = filter (\<lambda>p. tags p \<noteq> Arr [] \<and> (showFavorites st \<longrightarrow> favorite p)) (sortedPapers_of st)"
    using wf by (intro filter_cong) (auto split: jsval.splits)
  have tok: "js_split (CHR '' '') (toLowerCase (remove_first ''t:'' ''t:'')) = [[]]"
    by simp
  show "\<exists>st'. searchMemoryByTags ''t:'' st = Inr st'
           \<and> papersList_of st'
              = filter (\<lambda>p. tags p \<noteq> Arr [] \<and> (showFavorites st \<longrightarrow> favorite p))
                  (sortedPapers_of st)"
    unfolding searchMemoryByTags_eq tok flt using wf by simp
next
  assume "searchYears parse letters = []"
  then show "papersList_of (searchMemoryByYear parse letters st) = []"
    by (simp add: papersList_of_searchMemoryByYear)
qed

theorem empty_operand_witness:
  "sortedPapers_of (example_state [blank, paper_tagged [''gan'']] False)
     = [blank, paper_tagged [''gan'']]
   \<and> tags blank = Arr [] \<and> tags (paper_tagged [''gan'']) = Arr [''gan'']
   \<and> codeLink blank = Undefined \<and> codeLink (paper_tagged [''gan'']) = Undefined
   \<and> (\<exists>st'. searchMemoryByTags ''t:'' (example_state [blank, paper_tagged [''gan'']] False) = Inr st'
         \<and> papersList_of st' = [paper_tagged [''gan'']])
   \<and> (\<exists>st'. searchMemoryByCode ''c:'' (example_state [blank, paper_tagged [''gan'']] False) = Inr st'
         \<and> papersList_of st' = [blank, paper_tagged [''gan'']])
   \<and> searchYears parseInt ''y:'' = []
   \<and> papersList_of (searchMemoryByYear parseInt ''y:'' (example_state [blank, paper_tagged [''gan'']] False)) = []"
proof -
  have y: "searchYears parseInt ''y:'' = []" by code_simp
  show ?thesis
    using empty_operand [where st = "example_state [blank, paper_tagged [''gan'']] False"
        and letters = "''y:''" and parse = parseInt]
    by (simp add: y paper_tagged_def blank_def)
qed

text \<open>A year query with no year keeps nothing, and \<open>t:\<close> drops a paper without tags,
  with the toggle off.\<close>

theorem empty_operand_counterexample:
  "sortedPapers_of (example_state [blank] False) = [blank]
   \<and> \<not> showFavorites (example_state [blank] False)
   \<and> searchYears parseInt ''y:'' = []
   \<and> papersList_of (searchMemoryByYear parseInt ''y:'' (example_state [blank] False)) = []
   \<and> map_sum id papersList_of (searchMemoryByTags ''t:'' (example_state [blank] False)) = Inr []"
  by code_simp

section \<open>Order of the filtered list\<close>

text \<open>
  C7. Whatever the query and the toggle, the filtered list a filter assigns is a
  subsequence of the sorted list, in its order, and the sorted list itself is left as it
  was. The tag and code filters return whenever the papers' tags and code links are
  well formed.
\<close>

theorem filtered_list_is_subsequence:
  "subseq (papersList_of (searchMemory letters st)) (sortedPapers_of st)
   \<and> sortedPapers_of (searchMemory letters st) = sortedPapers_of st
   \<and> subseq (papersList_of (searchMemoryByYear parse letters st)) (sortedPapers_of st)
   \<and> sortedPapers_of (searchMemoryByYear parse letters st) = sortedPapers_of st
   \<and> ((\<forall>p\<in>set (sortedPapers_of st). \<exists>ts. tags p = Arr ts) \<longrightarrow>
        (\<exists>st'. searchMemoryByTags letters st = Inr st'))
   \<and> (\<forall>st'. searchMemoryByTags letters st = Inr st' \<longrightarrow>
        subseq (papersList_of st') (sortedPapers_of st)
        \<and> sortedPapers_of st' = sortedPapers_of st)
   \<and> ((\<forall>p\<in>set (sortedPapers_of st). \<forall>xs. codeLink p \<noteq> Arr xs) \<longrightarrow>
        (\<exists>st'. searchMemoryByCode letters st = Inr st'))
   \<and> (\<forall>st'. searchMemoryByCode letters st = Inr st' \<longrightarrow>
        subseq (papersList_of st') (sortedPapers_of st)
        \<and> sortedPapers_of st' = sortedPapers_of st)"
proof (intro conjI impI allI)
  show "subseq (papersList_of (searchMemory letters st)) (sortedPapers_of st)"
    by (simp add: papersList_of_searchMemory)
  show "sortedPapers_of (searchMemory letters st) = sortedPapers_of st"
    by (rule sortedPapers_of_searchMemory)
  show "subseq (papersList_of (searchMemoryByYear parse letters st)) (sortedPapers_of st)"
    by (simp add: papersList_of_searchMemoryByYear)
  show "sortedPapers_of (searchMemoryByYear parse letters st) = sortedPapers_of st"
    by (rule sortedPapers_of_searchMemoryByYear)
next
  assume "\<forall>p\<in>set (sortedPapers_of st). \<exists>ts. tags p = Arr ts"
  then show "\<exists>st'. searchMemoryByTags letters st = Inr st'"
    by (simp add: searchMemoryByTags_eq)
next
  assume "\<forall>p\<in>set (sortedPapers_of st). \<forall>xs. codeLink p \<noteq> Arr xs"
  then show "\<exists>st'. searchMemoryByCode letters st = Inr st'"
    by (simp add: searchMemoryByCode_eq)
next
  fix st'
  assume "searchMemoryByTags letters st = Inr st'"
  then show "subseq (papersList_of st') (sortedPapers_of st)"
    and "sortedPapers_of st' = sortedPapers_of st"
    by (auto simp: searchMemoryByTags_eq split: if_splits)
next
  fix st'
  assume "searchMemoryByCode letters st = Inr st'"
  then show "subseq (papersList_of st') (sortedPapers_of st)"
    and "sortedPapers_of st' = sortedPapers_of st"
    by (auto simp: searchMemoryByCode_eq split: if_splits)
qed

theorem filtered_list_is_subsequence_witness:
  "sortedPapers_of (example_state [blank, paper_tagged [''gan'']] False)
     = [blank, paper_tagged [''gan'']]
   \<and> tags blank = Arr [] \<and> tags (paper_tagged [''gan'']) = Arr [''gan'']
   \<and> (\<exists>st'. searchMemoryByTags ''t:ga'' (example_state [blank, paper_tagged [''gan'']] False) = Inr st'
         \<and> subseq (papersList_of st') [blank, paper_tagged [''gan'']])
   \<and> subseq (papersList_of (searchMemory ''ga'' (example_state [blank, paper_tagged [''gan'']] False)))
        [blank, paper_tagged [''gan'']]"
proof -
  let ?st = "example_state [blank, paper_tagged [''gan'']] False"
  have wf: "\<forall>p\<in>set (sortedPapers_of ?st). \<exists>ts. tags p = Arr ts"
    by (simp add: paper_tagged_def blank_def)
  from filtered_list_is_subsequence [where letters = "''t:ga''" and st = ?st] wf
  obtain st' where s: "searchMemoryByTags ''t:ga'' ?st = Inr st'"
    and "subseq (papersList_of st') (sortedPapers_of ?st)"
    by blast
  moreover have "subseq (papersList_of (searchMemory ''ga'' ?st)) (sortedPapers_of ?st)"
    using filtered_list_is_subsequence [where letters = "''ga''" and st = ?st] by blast
  ultimately show ?thesis by (auto simp: paper_tagged_def blank_def)
qed

section \<open>Where a filter departs from its siblings\<close>

text \<open>With the favorites toggle on, the text, tag and code filters keep favorites only.\<close>

lemma other_filters_test_favorites:
  assumes "showFavorites st"
  shows "\<forall>p\<in>set (papersList_of (searchMemory letters st)). favorite p"
    and "searchMemoryByTags letters st = Inr st' \<Longrightarrow> \<forall>p\<in>set (papersList_of st'). favorite p"
    and "searchMemoryByCode letters st = Inr st' \<Longrightarrow> \<forall>p\<in>set (papersList_of st'). favorite p"
  using assms
  by (auto simp: papersList_of_searchMemory searchMemoryByTags_eq searchMemoryByCode_eq
      split: if_splits)

text \<open>The year filter gives the same list whatever the toggle.\<close>

lemma searchMemoryByYear_ignores_toggle:
  "papersList_of (searchMemoryByYear parse letters (st\<lparr>showFavorites := b\<rparr>))
     = papersList_of (searchMemoryByYear parse letters st)"
  by (simp add: papersList_of_searchMemoryByYear sortedPapers_of_def)

text \<open>
  C2, at the failing input: with the favorites toggle on, the year filter keeps a paper
  that is not a favorite. The other three filters test the toggle; this one does not.
\<close>

theorem searchMemoryByYear_keeps_non_favorite:
  "showFavorites (example_state [paper_of_year ''2021''] True)
   \<and> \<not> favorite (paper_of_year ''2021'')
   \<and> papersList_of (searchMemoryByYear parseInt ''y:21'' (example_state [paper_of_year ''2021''] True))
       = [paper_of_year ''2021'']"
  by code_simp

text \<open>In the text filter an absent field is logged, with the paper, and counts as the
  empty string.\<close>

lemma content_absent_field:
  assumes "field p key = Undefined"
  shows "content p key = []"
    and "content_log p key =
           [LogError (''searchMemory: non-string & non-array content for key '' @ key),
            LogPaper p]"
  using assms by (simp_all add: content_def content_log_def)

text \<open>On two papers, the first without a \<open>tags\<close> field, the text filter treats the
  absent fields as empty and finds the paper tagged \<open>gan\<close>.\<close>

lemma searchMemory_skips_absent_fields:
  "papersList_of (searchMemory ''gan''
        (example_state [blank\<lparr>tags := Undefined\<rparr>, paper_tagged [''gan'']] False))
     = [paper_tagged [''gan'']]"
  by code_simp

text \<open>
  C9, at the failing input: on the same two papers the tag filter throws at the first
  one, so no filtered list is assigned and the paper tagged \<open>gan\<close> is not found.
\<close>

theorem searchMemoryByTags_aborts_on_absent_tags:
  "searchMemoryByTags ''t:gan''
      (example_state [blank\<lparr>tags := Undefined\<rparr>, paper_tagged [''gan'']] False)
     = Inl TypeError"
  by (simp add: searchMemoryByTags_eq)

section \<open>Changing the direction\<close>


lemma lists_apart_assign:
  "sortedPapers (assign_papersList xs st) \<noteq> papersList (assign_papersList xs st)"
proof -
  have "sortedPapers st \<noteq> Suc (max (sortedPapers st) (papersList st))" by simp
  then show ?thesis by (simp add: assign_papersList_def Let_def)
qed

text \<open>Every filter leaves the sorted and the filtered list in two arrays: the filtered
  list is always a fresh one.\<close>

lemma filters_keep_lists_apart:
  "sortedPapers (searchMemory letters st) \<noteq> papersList (searchMemory letters st)"
  "sortedPapers (searchMemoryByYear parse letters st)
     \<noteq> papersList (searchMemoryByYear parse letters st)"
  "searchMemoryByTags letters st = Inr st' \<Longrightarrow> sortedPapers st' \<noteq> papersList st'"
  "searchMemoryByCode letters st = Inr st' \<Longrightarrow> sortedPapers st' \<noteq> papersList st'"
  using lists_apart_assign
  by (auto simp: searchMemory_def searchMemoryByYear_def searchMemoryByTags_eq
      searchMemoryByCode_eq Let_def split: if_splits)



lemma reverseMemory_refs:
  "sortedPapers (reverseMemory st) = sortedPapers st
   \<and> papersList (reverseMemory st) = papersList st"
  by (simp add: reverseMemory_def Let_def)



section \<open>The favorite date\<close>

text \<open>
  C6, as the code has it. For a paper of the store, \<open>saveFavoriteItem\<close> returns, sets
  \<open>favorite\<close> to the value given and \<open>favoriteDate\<close> to the current timestamp, whether
  the paper becomes a favorite or stops being one, and touches no other paper.
\<close>

theorem saveFavoriteItem_sets_date:
  assumes "papers st pid = Some p"
  shows "\<exists>st'. saveFavoriteItem pid fav now st = Inr st'
           \<and> papers st' pid = Some (p\<lparr>favorite := fav, favoriteDate := Str now\<rparr>)
           \<and> (\<forall>q. q \<noteq> pid \<longrightarrow> papers st' q = papers st q)"
  using assms by (simp add: saveFavoriteItem_def)

theorem saveFavoriteItem_sets_date_witness:
  "papers example_store ''p1''
     = Some (blank\<lparr>favorite := True, favoriteDate := Str ''2024-01-01T00:00:00.000Z''\<rparr>)
   \<and> (\<exists>st'. saveFavoriteItem ''p1'' True ''2024-02-02T00:00:00.000Z'' example_store = Inr st'
         \<and> map_option favoriteDate (papers st' ''p1'') = Some (Str ''2024-02-02T00:00:00.000Z''))"
proof -
  have p: "papers example_store ''p1''
     = Some (blank\<lparr>favorite := True, favoriteDate := Str ''2024-01-01T00:00:00.000Z''\<rparr>)"
    by (simp add: example_store_def)
  from saveFavoriteItem_sets_date [OF p, of True "''2024-02-02T00:00:00.000Z''"]
  show ?thesis using p by auto
qed

text \<open>Un-favoriting a paper leaves it with a favorite date, the time of the call.\<close>


theorem saveFavoriteItem_counterexample:
  "map_option favoriteDate (papers example_store ''p1'') = Some (Str ''2024-01-01T00:00:00.000Z'')
   \<and> map_sum id (\<lambda>st'. map_option (\<lambda>p. (favorite p, favoriteDate p)) (papers st' ''p1''))
        (saveFavoriteItem ''p1'' False ''2024-02-02T00:00:00.000Z'' example_store)
      = Inr (Some (False, Str ''2024-02-02T00:00:00.000Z''))"
  by (simp add: saveFavoriteItem_def example_store_def)

text \<open>The star of the table view flips \<open>favorite\<close> and writes no date.\<close>

lemma handleToggleFavoriteTable_date:
  "map_option favoriteDate (papers (handleToggleFavoriteTable pid st) q)
     = map_option favoriteDate (papers st q)"
  by (simp add: handleToggleFavoriteTable_def split: option.splits)

section \<open>Scrolling through the pages\<close>

lemma slice_past_end: "length xs \<le> a \<Longrightarrow> slice a b xs = []"
  by (simp add: slice_def)

lemma take_slice: "a \<le> b \<Longrightarrow> take a xs @ slice a b xs = take b xs"
  by (simp add: slice_def take_add [symmetric] del: take_add)

lemma render_rows_append [simp]:
  "render_rows tmpl (xs @ ys) = render_rows tmpl xs @ render_rows tmpl ys"
  by (simp add: render_rows_def)

lemma render_rows_Nil [simp]: "render_rows tmpl [] = []"
  by (simp add: render_rows_def)

lemma render_logs_Nil [simp]: "render_logs msg tmpl [] = []"
  by (simp add: render_logs_def)

lemma length_render_rows:
  "\<forall>p\<in>set ps. \<exists>h. tmpl p = Inr h \<Longrightarrow> length (render_rows tmpl ps) = length ps"
  by (induction ps) (auto simp: render_rows_def)

lemma papersList_of_upd [simp]:
  "papersList_of (st\<lparr>currentMemoryPagination := c\<rparr>) = papersList_of st"
  "papersList_of (st\<lparr>memoryTable := t\<rparr>) = papersList_of st"
  "papersList_of (st\<lparr>console := l\<rparr>) = papersList_of st"
  "papersList_of (st\<lparr>papersTableBody := b\<rparr>) = papersList_of st"
  by (simp_all add: papersList_of_def)

text \<open>The first page.\<close>

lemma displayMemoryTable_first:
  "memoryTable (displayMemoryTable tmpl 0 st)
     = render_rows tmpl (take (memoryItemsPerPage st) (papersList_of st))
   \<and> currentMemoryPagination (displayMemoryTable tmpl 0 st) = 0
   \<and> papersList_of (displayMemoryTable tmpl 0 st) = papersList_of st
   \<and> memoryItemsPerPage (displayMemoryTable tmpl 0 st) = memoryItemsPerPage st
   \<and> papersTableBody (displayMemoryTable tmpl 0 st) = papersTableBody st"
  by (simp add: displayMemoryTable_def Let_def slice_def)

text \<open>One scroll event in the popup.\<close>

lemma displayOnScroll_popup:
  assumes "papersTableBody st = None"
  shows "displayOnScroll row tmpl near st =
     (if near \<and> currentMemoryPagination st * memoryItemsPerPage st < length (papersList_of st)
      then st\<lparr>currentMemoryPagination := currentMemoryPagination st + 1,
              memoryTable := memoryTable st @ render_rows tmpl
                (slice ((currentMemoryPagination st + 1) * memoryItemsPerPage st)
                       ((currentMemoryPagination st + 2) * memoryItemsPerPage st)
                       (papersList_of st)),
              console := console st @ render_logs ''displayMemoryTable error:'' tmpl
                (slice ((currentMemoryPagination st + 1) * memoryItemsPerPage st)
                       ((currentMemoryPagination st + 2) * memoryItemsPerPage st)
                       (papersList_of st))\<rparr>
      else st)"
  using assms by (simp add: displayOnScroll_def displayMemoryTable_def Let_def)

text \<open>The rows on the page are always the first pages of the filtered list, each paper
  once and in order.\<close>

lemma displayOnScroll_rows:
  assumes "papersTableBody st = None"
    and "memoryTable st = render_rows tmpl
           (take ((currentMemoryPagination st + 1) * memoryItemsPerPage st) (papersList_of st))"
  shows "memoryTable (displayOnScroll row tmpl near st)
           = render_rows tmpl
               (take ((currentMemoryPagination (displayOnScroll row tmpl near st) + 1)
                        * memoryItemsPerPage st) (papersList_of st))"
proof -
  let ?c = "currentMemoryPagination st" and ?m = "memoryItemsPerPage st"
  have "take ((?c + 1) * ?m) (papersList_of st)
          @ slice ((?c + 1) * ?m) ((?c + 2) * ?m) (papersList_of st)
        = take ((?c + 2) * ?m) (papersList_of st)"
    by (rule take_slice) simp
  then have "render_rows tmpl (take ((?c + 1) * ?m) (papersList_of st))
          @ render_rows tmpl (slice ((?c + 1) * ?m) ((?c + 2) * ?m) (papersList_of st))
        = render_rows tmpl (take ((?c + 2) * ?m) (papersList_of st))"
    by (metis render_rows_append)
  then show ?thesis
    using assms by (simp add: displayOnScroll_popup)
qed

text \<open>
  C5, at the failing inputs: when the rows of the current page reach the end of the
  filtered list but the page does not start beyond it, a scroll event near the bottom
  still moves the cursor to the next page, and appends nothing. The test compares
  \<open>cursor * pageSize\<close> with the length, not \<open>(cursor + 1) * pageSize\<close>.
\<close>

theorem displayOnScroll_past_last_page:
  assumes "currentMemoryPagination st * memoryItemsPerPage st < length (papersList_of st)"
    and "length (papersList_of st) \<le> (currentMemoryPagination st + 1) * memoryItemsPerPage st"
  shows "currentMemoryPagination (displayOnScroll row tmpl True st)
           = currentMemoryPagination st + 1
         \<and> memoryTable (displayOnScroll row tmpl True st) = memoryTable st
         \<and> papersTableBody (displayOnScroll row tmpl True st) = papersTableBody st"
proof (cases "papersTableBody st")
  case None
  then show ?thesis
    using assms by (simp add: displayOnScroll_popup slice_past_end)
next
  case (Some body)
  have "papersList_of st \<noteq> []"
    using assms(1) by auto
  then show ?thesis
    using assms Some
    by (simp add: displayOnScroll_def displayMemoryTableView_def Let_def slice_past_end)
qed

theorem displayOnScroll_past_last_page_witness:
  "currentMemoryPagination example_pages_shown = 2
   \<and> memoryItemsPerPage example_pages_shown = 100
   \<and> length (papersList_of example_pages_shown) = 250
   \<and> length (memoryTable example_pages_shown) = 250
   \<and> currentMemoryPagination
        (displayOnScroll example_template example_template True example_pages_shown) = 3
   \<and> memoryTable (displayOnScroll example_template example_template True example_pages_shown)
        = memoryTable example_pages_shown"
proof -
  have f: "currentMemoryPagination example_pages_shown = 2"
    "memoryItemsPerPage example_pages_shown = 100"
    "length (papersList_of example_pages_shown) = 250"
    "length (memoryTable example_pages_shown) = 250"
    by code_simp+
  show ?thesis
    using displayOnScroll_past_last_page
      [of example_pages_shown example_template example_template] f
    by simp
qed

text \<open>The cursor and the number of rows for 250 papers in pages of 100: after the first
  display and after each of four scroll events. After the second event the rows are those
  of the whole filtered list, each once and in order.\<close>

lemma pagination_250_by_100:
  "map (\<lambda>s. (currentMemoryPagination s, length (memoryTable s)))
     [displayMemoryTable example_template 0 example_pages,
      displayOnScroll example_template example_template True
        (displayMemoryTable example_template 0 example_pages),
      example_pages_shown,
      displayOnScroll example_template example_template True example_pages_shown,
      displayOnScroll example_template example_template True
        (displayOnScroll example_template example_template True example_pages_shown)]
   = [(0, 100), (1, 200), (2, 250), (3, 250), (3, 250)]
   \<and> memoryTable example_pages_shown
       = render_rows example_template (papersList_of example_pages)"
  by code_simp

section \<open>Notes sent to the flashcard bridge\<close>

lemma snd_ankiRequest:
  "snd (ankiRequest bridge act ps sent) = sent @ [\<lparr>action = act, version = 6, params = ps\<rparr>]"
  by (simp add: ankiRequest_def Let_def split: reply.splits option.splits)

lemma snd_ensureArxivDeck:
  "\<exists>new. snd (ensureArxivDeck bridge sent) = sent @ new
         \<and> (\<forall>r\<in>set new. \<forall>n. params r \<noteq> NoteParams n)"
proof -
  obtain res s1 where g: "getDeckNames bridge sent = (res, s1)"
    by (cases "getDeckNames bridge sent")
  then have s1: "s1 = sent @ [\<lparr>action = ''deckNames'', version = 6, params = NoParams\<rparr>]"
    using snd_ankiRequest [of bridge "''deckNames''" NoParams sent]
    by (simp add: getDeckNames_def)
  obtain res2 s2 where c: "createDeck bridge ''arxiv'' s1 = (res2, s2)"
    by (cases "createDeck bridge ''arxiv'' s1")
  then have s2: "s2 = s1 @ [\<lparr>action = ''createDeck'', version = 6, params = DeckParams ''arxiv''\<rparr>]"
    using snd_ankiRequest [of bridge "''createDeck''" "DeckParams ''arxiv''" s1]
    by (simp add: createDeck_def)
  have "snd (ensureArxivDeck bridge sent) = s1 \<or> snd (ensureArxivDeck bridge sent) = s2"
    by (simp add: ensureArxivDeck_def g c split: sum.splits ankiResult.splits)
  then show ?thesis
    unfolding s2 s1 by auto
qed

lemma snd_addAnkiCard:
  "\<exists>new. snd (addAnkiCard bridge deck front back tgs pap sent) = sent @ new
     \<and> (\<forall>r\<in>set new. \<forall>n. params r = NoteParams n \<longrightarrow>
           modelName n = ''Basic'' \<and> allowDuplicate (options n)
           \<and> duplicateScope (options n) = ''deck'')"
proof -
  obtain new where e: "snd (ensureArxivDeck bridge sent) = sent @ new"
    and n: "\<forall>r\<in>set new. \<forall>n. params r \<noteq> NoteParams n"
    using snd_ensureArxivDeck by blast
  obtain res s1 where p: "(if deck = ''arxiv'' then ensureArxivDeck bridge sent else (Inr (), sent)) = (res, s1)"
    by (cases "if deck = ''arxiv'' then ensureArxivDeck bridge sent else (Inr (), sent)")
  then have "s1 = sent @ new \<or> s1 = sent"
    using e by (auto split: if_splits)
  then obtain new1 where s1: "s1 = sent @ new1"
    and n1: "\<forall>r\<in>set new1. \<forall>n. params r \<noteq> NoteParams n"
    using n by (metis append_Nil2 empty_iff list.set(1))
  show ?thesis
  proof (cases res)
    case (Inl e)
    then show ?thesis
      using n1 by (simp add: addAnkiCard_def p s1)
  next
    case (Inr u)
    then show ?thesis
      using n1 by (auto simp: addAnkiCard_def p s1 Let_def snd_ankiRequest)
  qed
qed

lemma snd_addAnkiCard_plain:
  "\<exists>new. snd (addAnkiCard_plain bridge deck front back tgs sent) = sent @ new
     \<and> (\<forall>r\<in>set new. \<forall>n. params r = NoteParams n \<longrightarrow>
           modelName n = ''Basic'' \<and> allowDuplicate (options n)
           \<and> duplicateScope (options n) = ''deck'')"
proof -
  obtain new where e: "snd (ensureArxivDeck bridge sent) = sent @ new"
    and n: "\<forall>r\<in>set new. \<forall>n. params r \<noteq> NoteParams n"
    using snd_ensureArxivDeck by blast
  obtain res s1 where p: "(if deck = ''arxiv'' then ensureArxivDeck bridge sent else (Inr (), sent)) = (res, s1)"
    by (cases "if deck = ''arxiv'' then ensureArxivDeck bridge sent else (Inr (), sent)")
  then have "s1 = sent @ new \<or> s1 = sent"
    using e by (auto split: if_splits)
  then obtain new1 where s1: "s1 = sent @ new1"
    and n1: "\<forall>r\<in>set new1. \<forall>n. params r \<noteq> NoteParams n"
    using n by (metis append_Nil2 empty_iff list.set(1))
  show ?thesis
  proof (cases res)
    case (Inl e)
    then show ?thesis
      using n1 by (simp add: addAnkiCard_plain_def p s1)
  next
    case (Inr u)
    then show ?thesis
      using n1 by (auto simp: addAnkiCard_plain_def p s1 Let_def snd_ankiRequest)
  qed
qed

lemma notes_of_append [simp]: "notes_of (xs @ ys) = notes_of xs @ notes_of ys"
  by (simp add: notes_of_def)

lemma notes_of_simps [simp]:
  "notes_of [] = []"
  "notes_of [\<lparr>action = a, version = v, params = NoteParams n\<rparr>] = [n]"
  "notes_of [\<lparr>action = a, version = v, params = NoParams\<rparr>] = []"
  "notes_of [\<lparr>action = a, version = v, params = DeckParams d\<rparr>] = []"
  by (simp_all add: notes_of_def)

text \<open>The result of a request is read off the server's reply.\<close>

lemma fst_ankiRequest:
  "fst (ankiRequest bridge act ps sent) =
     (case bridge \<lparr>action = act, version = 6, params = ps\<rparr> of
        FetchFailed \<Rightarrow> Inl NetworkError
      | NotOk status \<Rightarrow> Inl (HttpError status)
      | Json result err \<Rightarrow>
          (case err of None \<Rightarrow> Inr result
           | Some e \<Rightarrow> if e \<noteq> [] then Inl (AnkiError e) else Inr result))"
  by (simp add: ankiRequest_def Let_def split: reply.splits option.splits)

lemma ankiRequest_AnkiError:
  "fst (ankiRequest bridge act ps sent) = Inl (AnkiError e) \<Longrightarrow>
     \<exists>res. bridge \<lparr>action = act, version = 6, params = ps\<rparr> = Json res (Some e)"
  by (auto simp: fst_ankiRequest split: reply.splits option.splits if_splits)

lemma ensureArxivDeck_notes:
  "notes_of (snd (ensureArxivDeck bridge sent)) = notes_of sent"
proof -
  obtain res s1 where g: "getDeckNames bridge sent = (res, s1)"
    by (cases "getDeckNames bridge sent")
  then have s1: "s1 = sent @ [\<lparr>action = ''deckNames'', version = 6, params = NoParams\<rparr>]"
    using snd_ankiRequest [of bridge "''deckNames''" NoParams sent]
    by (simp add: getDeckNames_def)
  obtain res2 s2 where c: "createDeck bridge ''arxiv'' s1 = (res2, s2)"
    by (cases "createDeck bridge ''arxiv'' s1")
  then have s2: "s2 = s1 @ [\<lparr>action = ''createDeck'', version = 6, params = DeckParams ''arxiv''\<rparr>]"
    using snd_ankiRequest [of bridge "''createDeck''" "DeckParams ''arxiv''" s1]
    by (simp add: createDeck_def)
  have "snd (ensureArxivDeck bridge sent) = s1 \<or> snd (ensureArxivDeck bridge sent) = s2"
    by (simp add: ensureArxivDeck_def g c split: sum.splits ankiResult.splits)
  then show ?thesis
    unfolding s2 s1 by (auto simp: notes_of_def)
qed

lemma ensureArxivDeck_AnkiError:
  "fst (ensureArxivDeck bridge sent) = Inl (AnkiError e) \<Longrightarrow>
     \<exists>r res. bridge r = Json res (Some e) \<and> (\<forall>n. params r \<noteq> NoteParams n)"
proof -
  assume a: "fst (ensureArxivDeck bridge sent) = Inl (AnkiError e)"
  obtain res s1 where g: "getDeckNames bridge sent = (res, s1)"
    by (cases "getDeckNames bridge sent")
  obtain res2 s2 where c: "createDeck bridge ''arxiv'' s1 = (res2, s2)"
    by (cases "createDeck bridge ''arxiv'' s1")
  from a have "res = Inl (AnkiError e) \<or> res2 = Inl (AnkiError e)"
    by (auto simp: ensureArxivDeck_def g c split: sum.splits ankiResult.splits if_splits)
  then show ?thesis
  proof
    assume "res = Inl (AnkiError e)"
    then have "fst (ankiRequest bridge ''deckNames'' NoParams sent) = Inl (AnkiError e)"
      using g by (simp add: getDeckNames_def)
    from ankiRequest_AnkiError [OF this] show ?thesis
      by (metis ankiParams.distinct(3) request.select_convs(3))
  next
    assume "res2 = Inl (AnkiError e)"
    then have "fst (ankiRequest bridge ''createDeck'' (DeckParams ''arxiv'') s1) = Inl (AnkiError e)"
      using c by (simp add: createDeck_def)
    from ankiRequest_AnkiError [OF this] show ?thesis
      by (metis ankiParams.distinct(5) request.select_convs(3))
  qed
qed

text \<open>The deck step of \<open>addAnkiCard\<close>.\<close>

lemma deck_step_notes:
  assumes "(if deck = ''arxiv'' then ensureArxivDeck bridge sent else (Inr (), sent)) = (res, s1)"
  shows "notes_of s1 = notes_of sent"
  using assms ensureArxivDeck_notes [of bridge sent]
  by (auto split: if_splits)

lemma deck_step_AnkiError:
  assumes "(if deck = ''arxiv'' then ensureArxivDeck bridge sent else (Inr (), sent))
             = (Inl (AnkiError e), s1)"
  shows "\<exists>r res. bridge r = Json res (Some e) \<and> (\<forall>n. params r \<noteq> NoteParams n)"
  using assms ensureArxivDeck_AnkiError [of bridge sent e]
  by (auto split: if_splits)

lemma addAnkiCard_sends_one_note:
  assumes "(if deck = ''arxiv'' then ensureArxivDeck bridge sent else (Inr (), sent)) = (res, s1)"
  shows "(\<forall>e. res = Inl e \<longrightarrow>
            addAnkiCard bridge deck front back tgs pap sent = (Inl e, s1)
            \<and> notes_of s1 = notes_of sent)
       \<and> (\<forall>u. res = Inr u \<longrightarrow>
            notes_of (snd (addAnkiCard bridge deck front back tgs pap sent))
              = notes_of sent
                @ [\<lparr>deckName = deck, modelName = ''Basic'',
                    note_fields = \<lparr>Front = front,
                      Back = back @ (case pap of None \<Rightarrow> [] | Some p \<Rightarrow> metadata p)\<rparr>,
                    noteTags = tgs,
                    options = \<lparr>allowDuplicate = True, duplicateScope = ''deck''\<rparr>\<rparr>]
            \<and> fst (addAnkiCard bridge deck front back tgs pap sent)
              = fst (ankiRequest bridge ''addNote''
                  (NoteParams \<lparr>deckName = deck, modelName = ''Basic'',
                    note_fields = \<lparr>Front = front,
                      Back = back @ (case pap of None \<Rightarrow> [] | Some p \<Rightarrow> metadata p)\<rparr>,
                    noteTags = tgs,
                    options = \<lparr>allowDuplicate = True, duplicateScope = ''deck''\<rparr>\<rparr>) s1))"
  using deck_step_notes [OF assms]
  by (cases pap)
     (auto simp: addAnkiCard_def assms Let_def snd_ankiRequest fst_ankiRequest
       split: reply.splits option.splits)

lemma addAnkiCard_plain_sends_one_note:
  assumes "(if deck = ''arxiv'' then ensureArxivDeck bridge sent else (Inr (), sent)) = (res, s1)"
  shows "(\<forall>e. res = Inl e \<longrightarrow>
            addAnkiCard_plain bridge deck front back tgs sent = (Inl e, s1)
            \<and> notes_of s1 = notes_of sent)
       \<and> (\<forall>u. res = Inr u \<longrightarrow>
            notes_of (snd (addAnkiCard_plain bridge deck front back tgs sent))
              = notes_of sent
                @ [\<lparr>deckName = deck, modelName = ''Basic'',
                    note_fields = \<lparr>Front = front, Back = back\<rparr>,
                    noteTags = tgs,
                    options = \<lparr>allowDuplicate = True, duplicateScope = ''deck''\<rparr>\<rparr>]
            \<and> fst (addAnkiCard_plain bridge deck front back tgs sent)
              = fst (ankiRequest bridge ''addNote''
                  (NoteParams \<lparr>deckName = deck, modelName = ''Basic'',
                    note_fields = \<lparr>Front = front, Back = back\<rparr>,
                    noteTags = tgs,
                    options = \<lparr>allowDuplicate = True, duplicateScope = ''deck''\<rparr>\<rparr>) s1))"
  using deck_step_notes [OF assms]
  by (auto simp: addAnkiCard_plain_def assms Let_def snd_ankiRequest fst_ankiRequest
       split: reply.splits option.splits)

text \<open>A server that answers with the duplicate error only to a note that forbids
  duplicates never makes \<open>addAnkiCard\<close> end with that error.\<close>

lemma addAnkiCard_not_duplicate:
  assumes h: "\<forall>r res. bridge r = Json res (Some duplicate_error) \<longrightarrow>
              (\<exists>n. params r = NoteParams n \<and> \<not> allowDuplicate (options n))"
  shows "fst (addAnkiCard bridge deck front back tgs pap sent) \<noteq> Inl (AnkiError duplicate_error)"
proof
  assume a: "fst (addAnkiCard bridge deck front back tgs pap sent) = Inl (AnkiError duplicate_error)"
  obtain res s1 where
    p: "(if deck = ''arxiv'' then ensureArxivDeck bridge sent else (Inr (), sent)) = (res, s1)"
    by (cases "if deck = ''arxiv'' then ensureArxivDeck bridge sent else (Inr (), sent)")
  show False
  proof (cases res)
    case (Inl e)
    with a addAnkiCard_sends_one_note [OF p]
    have "e = AnkiError duplicate_error" by simp
    with p Inl deck_step_AnkiError [of deck bridge sent duplicate_error s1]
    show False using h by blast
  next
    case (Inr u)
    with a addAnkiCard_sends_one_note [OF p]
    obtain n where "allowDuplicate (options n)"
      and "fst (ankiRequest bridge ''addNote'' (NoteParams n) s1) = Inl (AnkiError duplicate_error)"
      by (metis noteOptions.select_convs(1) ankiNote.select_convs(5))
    from this(1) ankiRequest_AnkiError [OF this(2)]
    show False using h
      by (metis ankiParams.inject(2) request.select_convs(3))
  qed
qed

lemma addAnkiCard_plain_not_duplicate:
  assumes h: "\<forall>r res. bridge r = Json res (Some duplicate_error) \<longrightarrow>
              (\<exists>n. params r = NoteParams n \<and> \<not> allowDuplicate (options n))"
  shows "fst (addAnkiCard_plain bridge deck front back tgs sent) \<noteq> Inl (AnkiError duplicate_error)"
proof
  assume a: "fst (addAnkiCard_plain bridge deck front back tgs sent) = Inl (AnkiError duplicate_error)"
  obtain res s1 where
    p: "(if deck = ''arxiv'' then ensureArxivDeck bridge sent else (Inr (), sent)) = (res, s1)"
    by (cases "if deck = ''arxiv'' then ensureArxivDeck bridge sent else (Inr (), sent)")
  show False
  proof (cases res)
    case (Inl e)
    with a addAnkiCard_plain_sends_one_note [OF p]
    have "e = AnkiError duplicate_error" by simp
    with p Inl deck_step_AnkiError [of deck bridge sent duplicate_error s1]
    show False using h by blast
  next
    case (Inr u)
    with a addAnkiCard_plain_sends_one_note [OF p]
    obtain n where "allowDuplicate (options n)"
      and "fst (ankiRequest bridge ''addNote'' (NoteParams n) s1) = Inl (AnkiError duplicate_error)"
      by (metis noteOptions.select_convs(1) ankiNote.select_convs(5))
    from this(1) ankiRequest_AnkiError [OF this(2)]
    show False using h
      by (metis ankiParams.inject(2) request.select_convs(3))
  qed
qed

text \<open>
  C10. Both versions of \<open>addAnkiCard\<close> only add requests to those already sent, and every
  note among the added requests has the model \<open>Basic\<close> and the options
  \<open>allowDuplicate: true\<close>, \<open>duplicateScope: "deck"\<close>. When the deck step succeeds (another
  deck than \<open>arxiv\<close>, or \<open>ensureArxivDeck\<close> returns), exactly one note is sent: the
  deck, the front, the back with the paper's metadata after it when a paper is passed,
  the tags, the model and the two options; and the result is what the bridge answers to
  that note. When the deck step throws, its error is the result and no note is sent.
  The server is not part of the program: for a server that answers with the duplicate
  error only to a note that forbids duplicates, which is what the option asks of it, no
  call ends with that error.
\<close>

theorem addAnkiCard_note_options:
  "(\<exists>new. snd (addAnkiCard bridge deck front back tgs pap sent) = sent @ new
     \<and> (\<forall>r\<in>set new. \<forall>n. params r = NoteParams n \<longrightarrow>
           modelName n = ''Basic'' \<and> allowDuplicate (options n)
           \<and> duplicateScope (options n) = ''deck''))
   \<and> (\<exists>new. snd (addAnkiCard_plain bridge deck front back tgs sent) = sent @ new
     \<and> (\<forall>r\<in>set new. \<forall>n. params r = NoteParams n \<longrightarrow>
           modelName n = ''Basic'' \<and> allowDuplicate (options n)
           \<and> duplicateScope (options n) = ''deck''))
   \<and> (deck \<noteq> ''arxiv'' \<or> fst (ensureArxivDeck bridge sent) = Inr () \<longrightarrow>
        notes_of (snd (addAnkiCard bridge deck front back tgs pap sent))
          = notes_of sent
            @ [\<lparr>deckName = deck, modelName = ''Basic'',
                note_fields = \<lparr>Front = front,
                  Back = back @ (case pap of None \<Rightarrow> [] | Some p \<Rightarrow> metadata p)\<rparr>,
                noteTags = tgs,
                options = \<lparr>allowDuplicate = True, duplicateScope = ''deck''\<rparr>\<rparr>]
        \<and> fst (addAnkiCard bridge deck front back tgs pap sent)
          = fst (ankiRequest bridge ''addNote''
              (NoteParams \<lparr>deckName = deck, modelName = ''Basic'',
                note_fields = \<lparr>Front = front,
                  Back = back @ (case pap of None \<Rightarrow> [] | Some p \<Rightarrow> metadata p)\<rparr>,
                noteTags = tgs,
                options = \<lparr>allowDuplicate = True, duplicateScope = ''deck''\<rparr>\<rparr>) [])
        \<and> notes_of (snd (addAnkiCard_plain bridge deck front back tgs sent))
          = notes_of sent
            @ [\<lparr>deckName = deck, modelName = ''Basic'',
                note_fields = \<lparr>Front = front, Back = back\<rparr>,
                noteTags = tgs,
                options = \<lparr>allowDuplicate = True, duplicateScope = ''deck''\<rparr>\<rparr>]
        \<and> fst (addAnkiCard_plain bridge deck front back tgs sent)
          = fst (ankiRequest bridge ''addNote''
              (NoteParams \<lparr>deckName = deck, modelName = ''Basic'',
                note_fields = \<lparr>Front = front, Back = back\<rparr>,
                noteTags = tgs,
                options = \<lparr>allowDuplicate = True, duplicateScope = ''deck''\<rparr>\<rparr>) []))
   \<and> (\<forall>e. deck = ''arxiv'' \<and> fst (ensureArxivDeck bridge sent) = Inl e \<longrightarrow>
        fst (addAnkiCard bridge deck front back tgs pap sent) = Inl e
        \<and> notes_of (snd (addAnkiCard bridge deck front back tgs pap sent)) = notes_of sent
        \<and> fst (addAnkiCard_plain bridge deck front back tgs sent) = Inl e
        \<and> notes_of (snd (addAnkiCard_plain bridge deck front back tgs sent)) = notes_of sent)
   \<and> ((\<forall>r res. bridge r = Json res (Some duplicate_error) \<longrightarrow>
           (\<exists>n. params r = NoteParams n \<and> \<not> allowDuplicate (options n))) \<longrightarrow>
        fst (addAnkiCard bridge deck front back tgs pap sent) \<noteq> Inl (AnkiError duplicate_error)
        \<and> fst (addAnkiCard_plain bridge deck front back tgs sent)
            \<noteq> Inl (AnkiError duplicate_error))"
proof -
  obtain res s1 where
    p: "(if deck = ''arxiv'' then ensureArxivDeck bridge sent else (Inr (), sent)) = (res, s1)"
    by (cases "if deck = ''arxiv'' then ensureArxivDeck bridge sent else (Inr (), sent)")
  have ok: "deck \<noteq> ''arxiv'' \<or> fst (ensureArxivDeck bridge sent) = Inr () \<Longrightarrow> res = Inr ()"
    using p by (auto split: if_splits)
  have bad: "\<And>e. deck = ''arxiv'' \<and> fst (ensureArxivDeck bridge sent) = Inl e \<Longrightarrow> res = Inl e"
    using p by (auto split: if_splits)
  have ind: "\<And>ps s. fst (ankiRequest bridge ''addNote'' ps s)
                   = fst (ankiRequest bridge ''addNote'' ps [])"
    by (simp add: fst_ankiRequest)
  have one: "deck \<noteq> ''arxiv'' \<or> fst (ensureArxivDeck bridge sent) = Inr () \<longrightarrow>
        notes_of (snd (addAnkiCard bridge deck front back tgs pap sent))
          = notes_of sent
            @ [\<lparr>deckName = deck, modelName = ''Basic'',
                note_fields = \<lparr>Front = front,
                  Back = back @ (case pap of None \<Rightarrow> [] | Some p \<Rightarrow> metadata p)\<rparr>,
                noteTags = tgs,
                options = \<lparr>allowDuplicate = True, duplicateScope = ''deck''\<rparr>\<rparr>]
        \<and> fst (addAnkiCard bridge deck front back tgs pap sent)
          = fst (ankiRequest bridge ''addNote''
              (NoteParams \<lparr>deckName = deck, modelName = ''Basic'',
                note_fields = \<lparr>Front = front,
                  Back = back @ (case pap of None \<Rightarrow> [] | Some p \<Rightarrow> metadata p)\<rparr>,
                noteTags = tgs,
                options = \<lparr>allowDuplicate = True, duplicateScope = ''deck''\<rparr>\<rparr>) [])
        \<and> notes_of (snd (addAnkiCard_plain bridge deck front back tgs sent))
          = notes_of sent
            @ [\<lparr>deckName = deck, modelName = ''Basic'',
                note_fields = \<lparr>Front = front, Back = back\<rparr>,
                noteTags = tgs,
                options = \<lparr>allowDuplicate = True, duplicateScope = ''deck''\<rparr>\<rparr>]
        \<and> fst (addAnkiCard_plain bridge deck front back tgs sent)
          = fst (ankiRequest bridge ''addNote''
              (NoteParams \<lparr>deckName = deck, modelName = ''Basic'',
                note_fields = \<lparr>Front = front, Back = back\<rparr>,
                noteTags = tgs,
                options = \<lparr>allowDuplicate = True, duplicateScope = ''deck''\<rparr>\<rparr>) [])"
    using addAnkiCard_sends_one_note [OF p] addAnkiCard_plain_sends_one_note [OF p] ok
      ind [where s = s1]
    by simp
  have none: "\<forall>e. deck = ''arxiv'' \<and> fst (ensureArxivDeck bridge sent) = Inl e \<longrightarrow>
        fst (addAnkiCard bridge deck front back tgs pap sent) = Inl e
        \<and> notes_of (snd (addAnkiCard bridge deck front back tgs pap sent)) = notes_of sent
        \<and> fst (addAnkiCard_plain bridge deck front back tgs sent) = Inl e
        \<and> notes_of (snd (addAnkiCard_plain bridge deck front back tgs sent)) = notes_of sent"
  proof (intro allI impI)
    fix e
    assume "deck = ''arxiv'' \<and> fst (ensureArxivDeck bridge sent) = Inl e"
    then have r: "res = Inl e" by (rule bad)
    have a: "addAnkiCard bridge deck front back tgs pap sent = (Inl e, s1)"
      using addAnkiCard_sends_one_note [OF p] r by blast
    have b: "addAnkiCard_plain bridge deck front back tgs sent = (Inl e, s1)"
      using addAnkiCard_plain_sends_one_note [OF p] r by blast
    show "fst (addAnkiCard bridge deck front back tgs pap sent) = Inl e
        \<and> notes_of (snd (addAnkiCard bridge deck front back tgs pap sent)) = notes_of sent
        \<and> fst (addAnkiCard_plain bridge deck front back tgs sent) = Inl e
        \<and> notes_of (snd (addAnkiCard_plain bridge deck front back tgs sent)) = notes_of sent"
      unfolding a b using deck_step_notes [OF p] by simp
  qed
  show ?thesis
    apply (intro conjI)
    subgoal by (rule snd_addAnkiCard)
    subgoal by (rule snd_addAnkiCard_plain)
    subgoal using one by blast
    subgoal using none by blast
    subgoal using addAnkiCard_not_duplicate addAnkiCard_plain_not_duplicate by blast
    done
qed

lemma example_bridge_deck: "fst (ensureArxivDeck example_bridge []) = Inr ()"
  by (simp add: ensureArxivDeck_def getDeckNames_def ankiRequest_def example_bridge_def Let_def)

lemma example_bridge_honours:
  "\<forall>r res. example_bridge r = Json res (Some duplicate_error) \<longrightarrow>
     (\<exists>n. params r = NoteParams n \<and> \<not> allowDuplicate (options n))"
  by (simp add: example_bridge_def)

theorem addAnkiCard_note_options_witness:
  "fst (ensureArxivDeck example_bridge []) = Inr ()
   \<and> notes_of (snd (addAnkiCard example_bridge ''arxiv'' ''Q'' ''A'' [''arxiv'']
         (Some example_arxiv_paper) []))
       = [\<lparr>deckName = ''arxiv'', modelName = ''Basic'',
           note_fields = \<lparr>Front = ''Q'', Back = ''A'' @ metadata example_arxiv_paper\<rparr>,
           noteTags = [''arxiv''],
           options = \<lparr>allowDuplicate = True, duplicateScope = ''deck''\<rparr>\<rparr>]
   \<and> fst (addAnkiCard example_bridge ''arxiv'' ''Q'' ''A'' [''arxiv'']
         (Some example_arxiv_paper) []) = Inr (Number 1)
   \<and> fst (addAnkiCard example_bridge ''arxiv'' ''Q'' ''A'' [''arxiv'']
         (Some example_arxiv_paper) []) \<noteq> Inl (AnkiError duplicate_error)"
  using addAnkiCard_note_options [where bridge = example_bridge and deck = "''arxiv''"
      and front = "''Q''" and tgs = "[''arxiv'']" and pap = "Some example_arxiv_paper"
      and sent = "[]"]
    example_bridge_deck example_bridge_honours
  by (simp add: fst_ankiRequest example_bridge_def)

text \<open>The back of the card for the paper of the example.\<close>

lemma metadata_example:
  "metadata example_arxiv_paper
     = ''<hr><small><strong>arXiv:</strong> 1706.03762<br>''
       @ ''<strong>Title:</strong> Attention Is All You Need<br>''
       @ ''<strong>Authors:</strong> Vaswani<br><strong>Year:</strong> 2017<br></small>''"
  by code_simp

end
